theory Spec2Isabelle
  imports Complex_Main
begin

section \<open>Python values the plugin works with\<close>

subsection \<open>Exceptions\<close>

text \<open>
  A raised exception is the \<open>Inl\<close> branch of a result.  Only the class of the exception
  matters to the code (the \<^verbatim>\<open>except\<close> clauses select by class), so the message is dropped.
\<close>

datatype py_error = IndexError | KeyError | ValueError | TypeError | RuntimeError

text \<open>A list comprehension whose element expression may raise stops at the first raise.\<close>

fun map_raising :: "('a \<Rightarrow> py_error + 'b) \<Rightarrow> 'a list \<Rightarrow> py_error + 'b list" where
  "map_raising f [] = Inr []"
| "map_raising f (x # xs) =
     (case f x of
        Inl e \<Rightarrow> Inl e
      | Inr y \<Rightarrow> (case map_raising f xs of Inl e \<Rightarrow> Inl e | Inr ys \<Rightarrow> Inr (y # ys)))"

text \<open>\<open>xs[i]\<close> for a non-negative constant index.\<close>

definition item :: "'a list \<Rightarrow> nat \<Rightarrow> py_error + 'a" where
  "item xs i = (if i < length xs then Inr (xs ! i) else Inl IndexError)"

text \<open>\<open>d[key]\<close> for a key that the dictionary may lack.\<close>

definition getitem :: "'a option \<Rightarrow> py_error + 'a" where
  "getitem v = (case v of None \<Rightarrow> Inl KeyError | Some x \<Rightarrow> Inr x)"

text \<open>The builtins \<open>min\<close> and \<open>max\<close> scan a non-empty sequence from the left.\<close>

fun py_min :: "real list \<Rightarrow> py_error + real" where
  "py_min [] = Inl ValueError"
| "py_min (x # xs) = Inr (fold min xs x)"

fun py_max :: "real list \<Rightarrow> py_error + real" where
  "py_max [] = Inl ValueError"
| "py_max (x # xs) = Inr (fold max xs x)"

subsection \<open>NumPy arrays\<close>

text \<open>
  An array carries a dtype, a shape and its elements in row-major order.  A mask's
  elements are kept as the real numbers they denote: \<open>False\<close>/\<open>True\<close> as \<open>0\<close>/\<open>1\<close>, an
  integer as itself, a finite float as its value; comparing two finite floats agrees with
  comparing the reals they denote, which is all the modelled code does with float
  elements.  The label raster is an array of integers.
\<close>

datatype dtype =
    np_bool
  | np_int8 | np_int16 | np_int32 | np_int64
  | np_uint8 | np_uint16 | np_uint32 | np_uint64
  | np_float16 | np_float32 | np_float64

definition is_integer_dtype :: "dtype \<Rightarrow> bool" where
  "is_integer_dtype d \<longleftrightarrow>
     d \<in> {np_int8, np_int16, np_int32, np_int64, np_uint8, np_uint16, np_uint32, np_uint64}"


record 'a ndarray =
  dtype :: dtype
  shape :: "nat list"
  elems :: "'a list"

text \<open>\<open>a > c\<close>: the elementwise comparison, a boolean array of the same shape.\<close>

definition greater_than :: "real ndarray \<Rightarrow> real \<Rightarrow> real ndarray" where
  "greater_than a c =
     \<lparr>dtype = np_bool, shape = shape a, elems = map (\<lambda>x. if x > c then 1 else 0) (elems a)\<rparr>"

text \<open>
  \<open>a.astype(d)\<close> and the implicit cast of an assignment into an array of dtype \<open>d\<close>.  The
  plugin only casts arrays whose elements are \<open>0\<close> or \<open>1\<close> (a comparison result or a
  binary mask), which every dtype represents exactly.  A cast to \<open>bool\<close> maps every
  non-zero element to \<open>True\<close>; a cast to an integer dtype truncates towards zero.
\<close>

definition cast_value :: "dtype \<Rightarrow> real \<Rightarrow> real" where
  "cast_value d x =
     (if d = np_bool then (if x \<noteq> 0 then 1 else 0)
      else if is_integer_dtype d then (if 0 \<le> x then of_int \<lfloor>x\<rfloor> else of_int \<lceil>x\<rceil>)
      else x)"

definition astype :: "real ndarray \<Rightarrow> dtype \<Rightarrow> real ndarray" where
  "astype a d = \<lparr>dtype = d, shape = shape a, elems = map (cast_value d) (elems a)\<rparr>"

text \<open>\<open>a * c\<close> for a scalar \<open>c\<close>.\<close>

definition times_scalar :: "real ndarray \<Rightarrow> real \<Rightarrow> real ndarray" where
  "times_scalar a c = a\<lparr>elems := map (\<lambda>x. x * c) (elems a)\<rparr>"

text \<open>
  A stack of candidate masks, the \<open>(N, H, W)\<close> array a prediction returns: one dtype, one
  shape for every plane, and the planes in order.  The empty Python list that the widget
  holds before any prediction is the stack without planes.
\<close>

record mask_stack =
  stack_dtype :: dtype
  plane_shape :: "nat list"
  planes :: "real list list"

definition empty_stack :: mask_stack where
  "empty_stack = \<lparr>stack_dtype = np_bool, plane_shape = [], planes = []\<rparr>"

text \<open>\<open>masks[i]\<close> for an index already known to be in range.\<close>

definition plane :: "mask_stack \<Rightarrow> nat \<Rightarrow> real ndarray" where
  "plane s i = \<lparr>dtype = stack_dtype s, shape = plane_shape s, elems = planes s ! i\<rparr>"

text \<open>
  \<open>masks[i] = a\<close>: the elements of \<open>a\<close> are cast to the dtype of the stack and written in
  place; NumPy refuses a value of another shape.
\<close>

definition set_plane :: "mask_stack \<Rightarrow> nat \<Rightarrow> real ndarray \<Rightarrow> py_error + mask_stack" where
  "set_plane s i a =
     (if i \<ge> length (planes s) then Inl IndexError
      else if shape a \<noteq> plane_shape s then Inl ValueError
      else Inr (s\<lparr>planes := (planes s)[i := map (cast_value (stack_dtype s)) (elems a)]\<rparr>))"

section \<open>utils.py\<close>

subsection \<open>Shape records\<close>

text \<open>
  A shape record is a dictionary; the functions read its keys \<^verbatim>\<open>'shape_type'\<close> and
  \<^verbatim>\<open>'data'\<close> (the list of vertices, each a list of coordinates).  A dictionary may lack
  either key, so each is optional.
\<close>

record shape_record =
  shape_type :: "string option"
  data :: "real list list option"

text \<open>
  \<^verbatim>\<open>[s for s in shapes if s['shape_type'] == ty]\<close>: the subscript raises \<open>KeyError\<close> at the
  first record without the key.
\<close>

fun shapes_of_type :: "string \<Rightarrow> shape_record list \<Rightarrow> py_error + shape_record list" where
  "shapes_of_type ty [] = Inr []"
| "shapes_of_type ty (s # ss) =
     (case getitem (shape_type s) of
        Inl e \<Rightarrow> Inl e
      | Inr t \<Rightarrow>
          (case shapes_of_type ty ss of
             Inl e \<Rightarrow> Inl e
           | Inr r \<Rightarrow> Inr (if t = ty then s # r else r)))"


subsection \<open>shapes\_to\_points\<close>



subsection \<open>shapes\_to\_box\<close>

text \<open>
  \<^verbatim>\<open>
  def shapes_to_box(shapes):
      if not shapes:
          return np.array([])
      rect_shapes = [s for s in shapes if s['shape_type'] == 'rectangle']
      if not rect_shapes:
          return np.array([])
      try:
          rect = rect_shapes[-1]
          rect_data = rect['data']
          if len(rect_data) < 4:
              return np.array([])
          x_coords = [p[1] for p in rect_data]
          y_coords = [p[0] for p in rect_data]
          if not x_coords or not y_coords:
              return np.array([])
          x_min = min(x_coords); y_min = min(y_coords)
          x_max = max(x_coords); y_max = max(y_coords)
          if x_max <= x_min or y_max <= y_min:
              return np.array([])
          box = np.array([x_min, y_min, x_max, y_max])
          return box
      except (IndexError, KeyError, ValueError) as e:
          return np.array([])
  \<close>
  The body of the \<^verbatim>\<open>try\<close> is \<open>box_of_rect\<close>; the handler is in \<open>shapes_to_box\<close>.  The
  filter stands before the \<^verbatim>\<open>try\<close>.
\<close>

definition box_of_rect :: "shape_record \<Rightarrow> py_error + real list" where
  "box_of_rect rect =
     (case getitem (data rect) of
        Inl e \<Rightarrow> Inl e
      | Inr rect_data \<Rightarrow>
          if length rect_data < 4 then Inr []
          else case map_raising (\<lambda>p. item p 1) rect_data of
            Inl e \<Rightarrow> Inl e
          | Inr x_coords \<Rightarrow>
              (case map_raising (\<lambda>p. item p 0) rect_data of
                 Inl e \<Rightarrow> Inl e
               | Inr y_coords \<Rightarrow>
                   if x_coords = [] \<or> y_coords = [] then Inr []
                   else case py_min x_coords of Inl e \<Rightarrow> Inl e | Inr x_min \<Rightarrow>
                        case py_min y_coords of Inl e \<Rightarrow> Inl e | Inr y_min \<Rightarrow>
                        case py_max x_coords of Inl e \<Rightarrow> Inl e | Inr x_max \<Rightarrow>
                        case py_max y_coords of Inl e \<Rightarrow> Inl e | Inr y_max \<Rightarrow>
                          if x_max \<le> x_min \<or> y_max \<le> y_min then Inr []
                          else Inr [x_min, y_min, x_max, y_max]))"

definition shapes_to_box :: "shape_record list \<Rightarrow> py_error + real list" where
  "shapes_to_box shapes =
     (if shapes = [] then Inr []
      else case shapes_of_type ''rectangle'' shapes of
        Inl e \<Rightarrow> Inl e
      | Inr rect_shapes \<Rightarrow>
          if rect_shapes = [] then Inr []
          else case box_of_rect (last rect_shapes) of
            Inl e \<Rightarrow> if e \<in> {IndexError, KeyError, ValueError} then Inr [] else Inl e
          | Inr box \<Rightarrow> Inr box)"

subsection \<open>mask\_to\_binary\<close>

text \<open>
  \<^verbatim>\<open>
  def mask_to_binary(mask, threshold=0.5):
      if mask.dtype in (np.uint8, np.int32, np.int64):
          return (mask > 0).astype(np.uint8)
      return (mask > threshold).astype(np.uint8)
  \<close>
\<close>

definition mask_to_binary :: "real ndarray \<Rightarrow> real \<Rightarrow> real ndarray" where
  "mask_to_binary m threshold =
     (if dtype m \<in> {np_uint8, np_int32, np_int64}
      then astype (greater_than m 0) np_uint8
      else astype (greater_than m threshold) np_uint8)"

definition default_threshold :: real where
  "default_threshold = 0.5"

section \<open>mobilesam\_wrapper.py\<close>

subsection \<open>The external libraries\<close>

text \<open>
  The wrapper drives a \<open>SamPredictor\<close> of the \<open>mobile_sam\<close> package and prepares the image
  with NumPy and OpenCV.  None of that code belongs to the plugin, so it is a parameter
  of the model: a predictor state \<open>'p\<close> and the operations the wrapper calls on it.
  \<^item> \<open>new_predictor\<close>: the state of a fresh \<^verbatim>\<open>SamPredictor(self.model)\<close>;
  \<^item> \<open>reset_image\<close>: \<^verbatim>\<open>predictor.reset_image()\<close>;
  \<^item> \<open>predictor_set_image\<close>: \<^verbatim>\<open>predictor.set_image(image)\<close>, the state it leaves and the
    exception it raised, if any;
  \<^item> \<open>predictor_predict\<close>: \<^verbatim>\<open>predictor.predict(point_coords, point_labels, box,
    multimask_output)\<close>, the masks and the scores (the logits are never used), or the
    exception raised;
  \<^item> \<open>model_to\<close>: whether \<^verbatim>\<open>model.to(device)\<close> succeeds;
  \<^item> \<open>normalize_image\<close>: the copy and the conversions of lines 158 to 174
    (\<^verbatim>\<open>cvtColor\<close>, channel slice, cast to \<open>uint8\<close>), which may raise.
\<close>

record 'p sam_api =
  new_predictor :: "'p"
  reset_image :: "'p \<Rightarrow> 'p"
  predictor_set_image :: "'p \<Rightarrow> real ndarray \<Rightarrow> 'p \<times> py_error option"
  predictor_predict ::
    "'p \<Rightarrow> (real list list \<times> int list) option \<Rightarrow> real list option \<Rightarrow> bool
       \<Rightarrow> py_error + (mask_stack \<times> real list)"
  model_to :: "string \<Rightarrow> bool"
  normalize_image :: "real ndarray \<Rightarrow> py_error + real ndarray"

subsection \<open>The wrapper's state\<close>

text \<open>
  \<open>image_embeddings\<close> holds \<open>None\<close>, \<open>True\<close> or \<open>False\<close>.  The constructor's choice of
  device depends on the platform only; its outcome is the argument of \<open>init_wrapper\<close>.
\<close>

record 'p wrapper =
  device :: string
  predictor :: 'p
  image_embeddings :: "bool option"
  wrapper_image :: "real ndarray option"

definition init_wrapper :: "'p sam_api \<Rightarrow> string \<Rightarrow> 'p wrapper" where
  "init_wrapper api dev =
     \<lparr>device = dev, predictor = new_predictor api, image_embeddings = None,
      wrapper_image = None\<rparr>"

subsection \<open>set\_image\<close>

text \<open>
  \<^verbatim>\<open>
  def set_image(self, image):
      try:
          if image is None:
              raise ValueError(...)
          image = image.copy()
          ...                                   # lines 161-174
          if self.device == "mps":
              try:
                  self.current_image = image
                  with torch.no_grad():
                      self.predictor.reset_image()
                      self.predictor.model.to("cpu")
                      self.predictor.set_image(image)
                      self.predictor.model.to(self.device)
                      self.image_embeddings = True
              except Exception as e:
                  self.device = "cpu"
                  self.model.to("cpu")
                  self.predictor = SamPredictor(self.model)
                  self.predictor.set_image(image)
                  self.image_embeddings = True
          else:
              self.current_image = image
              self.predictor.set_image(image)
              self.image_embeddings = True
      except Exception as e:
          self.image_embeddings = False
          raise ValueError(...)
  \<close>
  Each function returns the state it leaves and the exception it raised, if any.
\<close>

definition set_image_mps :: "'p sam_api \<Rightarrow> 'p wrapper \<Rightarrow> real ndarray \<Rightarrow> 'p wrapper \<times> py_error option" where
  "set_image_mps api w img =
     (let w1 = w\<lparr>wrapper_image := Some img, predictor := reset_image api (predictor w)\<rparr> in
      if \<not> model_to api ''cpu'' then (w1, Some RuntimeError)
      else
        (let (p2, r) = predictor_set_image api (predictor w1) img;
             w2 = w1\<lparr>predictor := p2\<rparr>
         in case r of
              Some e \<Rightarrow> (w2, Some e)
            | None \<Rightarrow>
                if \<not> model_to api (device w2) then (w2, Some RuntimeError)
                else (w2\<lparr>image_embeddings := Some True\<rparr>, None)))"

definition set_image_cpu_fallback ::
  "'p sam_api \<Rightarrow> 'p wrapper \<Rightarrow> real ndarray \<Rightarrow> 'p wrapper \<times> py_error option" where
  "set_image_cpu_fallback api w img =
     (let w1 = w\<lparr>device := ''cpu''\<rparr> in
      if \<not> model_to api ''cpu'' then (w1, Some RuntimeError)
      else
        (let (p2, r) = predictor_set_image api (new_predictor api) img;
             w2 = w1\<lparr>predictor := p2\<rparr>
         in case r of
              Some e \<Rightarrow> (w2, Some e)
            | None \<Rightarrow> (w2\<lparr>image_embeddings := Some True\<rparr>, None)))"

definition set_image_body ::
  "'p sam_api \<Rightarrow> 'p wrapper \<Rightarrow> real ndarray option \<Rightarrow> 'p wrapper \<times> py_error option" where
  "set_image_body api w image_arg =
     (case image_arg of
        None \<Rightarrow> (w, Some ValueError)
      | Some raw \<Rightarrow>
          (case normalize_image api raw of
             Inl e \<Rightarrow> (w, Some e)
           | Inr img \<Rightarrow>
               if device w = ''mps'' then
                 (case set_image_mps api w img of
                    (w', None) \<Rightarrow> (w', None)
                  | (w', Some e) \<Rightarrow> set_image_cpu_fallback api w' img)
               else
                 (let w1 = w\<lparr>wrapper_image := Some img\<rparr>;
                      (p2, r) = predictor_set_image api (predictor w1) img;
                      w2 = w1\<lparr>predictor := p2\<rparr>
                  in case r of
                       Some e \<Rightarrow> (w2, Some e)
                     | None \<Rightarrow> (w2\<lparr>image_embeddings := Some True\<rparr>, None))))"

definition set_image ::
  "'p sam_api \<Rightarrow> 'p wrapper \<Rightarrow> real ndarray option \<Rightarrow> 'p wrapper \<times> py_error option" where
  "set_image api w image_arg =
     (case set_image_body api w image_arg of
        (w', None) \<Rightarrow> (w', None)
      | (w', Some e) \<Rightarrow> (w'\<lparr>image_embeddings := Some False\<rparr>, Some ValueError))"

subsection \<open>The predict variants\<close>

text \<open>
  \<^verbatim>\<open>np.argmax(scores)\<close>: a scan from the left that keeps the first index of the largest
  element seen so far; an empty array raises \<open>ValueError\<close>.
\<close>

fun argmax_scan :: "real list \<Rightarrow> nat \<Rightarrow> nat \<Rightarrow> real \<Rightarrow> nat" where
  "argmax_scan [] i best v = best"
| "argmax_scan (x # xs) i best v =
     (if x > v then argmax_scan xs (Suc i) i x else argmax_scan xs (Suc i) best v)"

definition argmax :: "real list \<Rightarrow> py_error + nat" where
  "argmax xs = (case xs of [] \<Rightarrow> Inl ValueError | x # r \<Rightarrow> Inr (argmax_scan r 1 0 x))"

text \<open>
  \<^verbatim>\<open>
  def predict_from_points(self, points, labels, multimask_output=True):
      if self.image_embeddings is None:
          raise ValueError(...)
      input_points = points.astype(np.float32)
      input_labels = labels.astype(np.int32)
      masks, scores, logits = self.predictor.predict(
          point_coords=input_points, point_labels=input_labels,
          multimask_output=multimask_output)
      best_idx = np.argmax(scores)
      return masks, scores, best_idx
  \<close>
  \<open>predict_from_box\<close> and \<open>predict_from_box_and_points\<close> have the same guard, then refuse a
  box whose shape is not \<open>(4,)\<close>, and pass the box on.
\<close>

definition with_best ::
  "py_error + (mask_stack \<times> real list) \<Rightarrow> py_error + (mask_stack \<times> real list \<times> nat)" where
  "with_best r =
     (case r of
        Inl e \<Rightarrow> Inl e
      | Inr (masks, scores) \<Rightarrow>
          (case argmax scores of
             Inl e \<Rightarrow> Inl e
           | Inr best_idx \<Rightarrow> Inr (masks, scores, best_idx)))"

definition predict_from_points ::
  "'p sam_api \<Rightarrow> 'p wrapper \<Rightarrow> real list list \<Rightarrow> int list \<Rightarrow> bool
     \<Rightarrow> py_error + (mask_stack \<times> real list \<times> nat)" where
  "predict_from_points api w points labels multimask_output =
     (if image_embeddings w = None then Inl ValueError
      else with_best
             (predictor_predict api (predictor w) (Some (points, labels)) None multimask_output))"

definition predict_from_box ::
  "'p sam_api \<Rightarrow> 'p wrapper \<Rightarrow> real list \<Rightarrow> bool
     \<Rightarrow> py_error + (mask_stack \<times> real list \<times> nat)" where
  "predict_from_box api w box multimask_output =
     (if image_embeddings w = None then Inl ValueError
      else if length box \<noteq> 4 then Inl ValueError
      else with_best (predictor_predict api (predictor w) None (Some box) multimask_output))"

definition predict_from_box_and_points ::
  "'p sam_api \<Rightarrow> 'p wrapper \<Rightarrow> real list \<Rightarrow> real list list \<Rightarrow> int list \<Rightarrow> bool
     \<Rightarrow> py_error + (mask_stack \<times> real list \<times> nat)" where
  "predict_from_box_and_points api w box points labels multimask_output =
     (if image_embeddings w = None then Inl ValueError
      else if length box \<noteq> 4 then Inl ValueError
      else with_best
             (predictor_predict api (predictor w) (Some (points, labels)) (Some box)
                multimask_output))"

section \<open>\_widget.py: the label map and the prediction results\<close>

subsection \<open>Dictionaries\<close>

text \<open>
  \<open>label_names\<close> and \<open>label_colors\<close> are dictionaries keyed by label id.  The code
  iterates over \<open>label_names\<close>, so the insertion order matters: a dictionary is the list
  of its items in that order.  \<open>d[k] = v\<close> replaces the value of a key in place and appends
  a new key at the end.
\<close>

type_synonym 'v dict = "(int \<times> 'v) list"

definition dict_keys :: "'v dict \<Rightarrow> int list" where
  "dict_keys d = map fst d"

definition dict_set :: "'v dict \<Rightarrow> int \<Rightarrow> 'v \<Rightarrow> 'v dict" where
  "dict_set d k v =
     (if k \<in> set (dict_keys d) then map (\<lambda>(k', v'). if k' = k then (k', v) else (k', v')) d
      else d @ [(k, v)])"

text \<open>\<^verbatim>\<open>max(d.keys(), default=0)\<close>.\<close>

definition max_key :: "'v dict \<Rightarrow> int" where
  "max_key d = (case dict_keys d of [] \<Rightarrow> 0 | k # ks \<Rightarrow> fold max ks k)"

text \<open>
  \<^verbatim>\<open>
  label_id = None
  for key, value in self.label_names.items():
      if value == label_name:
          label_id = key
          break
  \<close>
\<close>

fun find_label_id :: "string dict \<Rightarrow> string \<Rightarrow> int option" where
  "find_label_id [] label_name = None"
| "find_label_id ((key, val) # rest) label_name =
     (if val = label_name then Some key else find_label_id rest label_name)"

subsection \<open>\_generate\_label\_color\<close>

text \<open>
  \<^verbatim>\<open>int(x)\<close> truncates towards zero.  \<^verbatim>\<open>colorsys.hsv_to_rgb\<close> of the standard library:
  \<^verbatim>\<open>
  def hsv_to_rgb(h, s, v):
      if s == 0.0:
          return v, v, v
      i = int(h*6.0)
      f = (h*6.0) - i
      p = v*(1.0 - s)
      q = v*(1.0 - s*f)
      t = v*(1.0 - s*(1.0-f))
      i = i%6
      if i == 0: return v, t, p
      if i == 1: return q, v, p
      if i == 2: return p, v, t
      if i == 3: return p, q, v
      if i == 4: return t, p, v
      if i == 5: return v, p, q
  \<close>
  The floats are modelled by the reals they denote, without rounding.
\<close>

definition py_int :: "real \<Rightarrow> int" where
  "py_int x = (if 0 \<le> x then \<lfloor>x\<rfloor> else \<lceil>x\<rceil>)"

definition hsv_to_rgb :: "real \<Rightarrow> real \<Rightarrow> real \<Rightarrow> real \<times> real \<times> real" where
  "hsv_to_rgb h s v =
     (if s = 0 then (v, v, v)
      else
        (let i = py_int (h * 6);
             f = h * 6 - of_int i;
             p = v * (1 - s);
             q = v * (1 - s * f);
             t = v * (1 - s * (1 - f));
             i6 = i mod 6
         in if i6 = 0 then (v, t, p)
            else if i6 = 1 then (q, v, p)
            else if i6 = 2 then (p, v, t)
            else if i6 = 3 then (p, q, v)
            else if i6 = 4 then (t, p, v)
            else (v, p, q)))"

text \<open>
  \<^verbatim>\<open>
  def _generate_label_color(self, label_id):
      golden_ratio_conjugate = 0.618033988749895
      h = (label_id * golden_ratio_conjugate) % 1.0
      s = 0.8
      v = 0.95
      r, g, b = colorsys.hsv_to_rgb(h, s, v)
      return [r, g, b, 1.0]
  \<close>
  \<open>x % 1.0\<close> is the fractional part \<open>x - \<lfloor>x\<rfloor>\<close>, also for a negative \<open>x\<close>.
\<close>

definition golden_ratio_conjugate :: real where
  "golden_ratio_conjugate = 0.618033988749895"

definition label_hue :: "int \<Rightarrow> real" where
  "label_hue label_id = frac (of_int label_id * golden_ratio_conjugate)"

definition generate_label_color :: "int \<Rightarrow> real list" where
  "generate_label_color label_id =
     (let h = label_hue label_id;
          s = 0.8;
          v = 0.95;
          (r, g, b) = hsv_to_rgb h s v
      in [r, g, b, 1.0])"


subsection \<open>The widget's state\<close>

text \<open>
  The fields of \<open>MobileSamWidget\<close> that the modelled methods read or write, and the part
  of the viewer they touch: the layers offered in the image combo box (by name, each an
  \<open>Image\<close> layer with its data or a layer of another class), and the four layers that
  the plugin itself creates under fixed names (the label raster, the mask display, the
  mask preview and the annotation shapes).  Notifications, the status line and the
  enabled state of buttons are not part of the model.
\<close>

datatype combo_layer = ImageLayer "real ndarray" | OtherLayer

record labels_layer =
  raster :: "int ndarray"
  meta_label_names :: "string dict option"
  meta_label_colors :: "real list dict option"

record shapes_layer =
  shapes_data :: "shape_record list"
  point_type_feature :: "int list option"

record 'p widget =
  model_loaded :: bool
  model :: "'p wrapper option"
  current_image :: "real ndarray option"
  current_layer :: "string option"
  result_masks :: mask_stack
  result_scores :: "real list"
  selected_mask_idx :: nat
  label_names :: "string dict"
  label_colors :: "real list dict"
  next_label_id :: int
  image_combo :: "string list"
  image_combo_text :: string
  combo_layers :: "(string \<times> combo_layer) list"
  labels_layer :: "labels_layer option"
  mask_layer :: "real ndarray option"
  preview_layer :: "real ndarray option"
  annotation_layer :: "shapes_layer option"

text \<open>The state \<open>__init__\<close> leaves, in a viewer without layers.\<close>

definition init_widget :: "'p widget" where
  "init_widget =
     \<lparr>model_loaded = False, model = None, current_image = None, current_layer = None,
      result_masks = empty_stack, result_scores = [], selected_mask_idx = 0,
      label_names = [], label_colors = [], next_label_id = 1,
      image_combo = [], image_combo_text = [], combo_layers = [],
      labels_layer = None, mask_layer = None, preview_layer = None,
      annotation_layer = None\<rparr>"

subsection \<open>\_set\_current\_image and \_clear\_annotations\<close>

text \<open>
  \<^verbatim>\<open>
  def _set_current_image(self):
      if not self.model_loaded:
          return
      if self.image_combo.count() == 0:
          return
      selected_layer_name = self.image_combo.currentText()
      selected_layer = self.viewer.layers[selected_layer_name]
      if not isinstance(selected_layer, Image):
          return
      image_data = selected_layer.data
      try:
          self.model.set_image(image_data)
          self.current_image = image_data
          self.current_layer = selected_layer
          self.predict_btn.setEnabled(True)
      except Exception as e:
          ...                                   # messages only
  \<close>
  A method returns the state it leaves and the exception that escaped it, if any.
\<close>

definition set_current_image :: "'p sam_api \<Rightarrow> 'p widget \<Rightarrow> 'p widget \<times> py_error option" where
  "set_current_image api w =
     (if \<not> model_loaded w then (w, None)
      else if image_combo w = [] then (w, None)
      else case map_of (combo_layers w) (image_combo_text w) of
        None \<Rightarrow> (w, Some KeyError)
      | Some OtherLayer \<Rightarrow> (w, None)
      | Some (ImageLayer image_data) \<Rightarrow>
          (case model w of
             None \<Rightarrow> (w, None)
           | Some m \<Rightarrow>
               (case set_image api m (Some image_data) of
                  (m', None) \<Rightarrow>
                    (w\<lparr>model := Some m', current_image := Some image_data,
                       current_layer := Some (image_combo_text w)\<rparr>, None)
                | (m', Some e) \<Rightarrow> (w\<lparr>model := Some m'\<rparr>, None))))"

text \<open>
  \<^verbatim>\<open>
  def _clear_annotations(self):
      if '...' in self.viewer.layers:             # the annotation layer
          shapes_layer = self.viewer.layers['...']
          shapes_layer.data = []
          if hasattr(shapes_layer, 'features'):
              shapes_layer.features = {}
              if 'point_type' not in shapes_layer.features:
                  shapes_layer.features['point_type'] = np.array([], dtype=np.int32)
      if '...' in self.viewer.layers:             # the mask display
          self.viewer.layers.remove('...')
      if '...' in self.viewer.layers:             # the mask preview
          self.viewer.layers.remove('...')
      self.result_masks = []
      self.result_scores = []
      self.selected_mask_idx = 0
  \<close>
\<close>

definition clear_annotations :: "'p widget \<Rightarrow> 'p widget" where
  "clear_annotations w =
     w\<lparr>annotation_layer :=
         map_option (\<lambda>l. l\<lparr>shapes_data := [], point_type_feature := Some []\<rparr>)
           (annotation_layer w),
       mask_layer := None,
       preview_layer := None,
       result_masks := empty_stack,
       result_scores := [],
       selected_mask_idx := 0\<rparr>"

text \<open>
  \<open>_load_image_by_index\<close> adds the file it read as a layer, then runs the two methods
  one after the other inside one \<^verbatim>\<open>try\<close>, so that an exception escaping the first
  skips the second and is swallowed:
  \<^verbatim>\<open>
      self._set_current_image()
      self._update_image_counter()
      self._clear_annotations()
  \<close>
\<close>

definition set_image_then_clear :: "'p sam_api \<Rightarrow> 'p widget \<Rightarrow> 'p widget" where
  "set_image_then_clear api w =
     (case set_current_image api w of
        (w', Some e) \<Rightarrow> w'
      | (w', None) \<Rightarrow> clear_annotations w')"

text \<open>
  The end of \<open>_predict_with_points\<close> and of \<open>_predict_with_box_and_points\<close>, once the
  wrapper has returned:
  \<^verbatim>\<open>
      self.result_masks = masks
      self.result_scores = scores
      self.selected_mask_idx = best_idx
      self._update_mask_list()
      self._display_mask(masks[best_idx])
  \<close>
  \<open>_display_mask\<close> shows the mask in the display layer, creating the layer if needed.
\<close>

definition display_mask :: "'p widget \<Rightarrow> real ndarray \<Rightarrow> 'p widget" where
  "display_mask w m = w\<lparr>mask_layer := Some m\<rparr>"

definition save_results :: "'p widget \<Rightarrow> mask_stack \<times> real list \<times> nat \<Rightarrow> 'p widget \<times> py_error option" where
  "save_results w res =
     (case res of
        (masks, scores, best_idx) \<Rightarrow>
          (let w1 = w\<lparr>result_masks := masks, result_scores := scores,
                      selected_mask_idx := best_idx\<rparr>
           in if best_idx < length (planes masks)
              then (display_mask w1 (plane masks best_idx), None)
              else (w1, Some IndexError)))"

subsection \<open>\_add\_mask\_to\_labels\<close>

text \<open>
  The placeholder name \<^verbatim>\<open>f"...{self.next_label_id}"\<close>: a fixed two-character prefix (six
  bytes in UTF-8) followed by the decimal digits of the number.
\<close>

fun decimal :: "nat \<Rightarrow> string" where
  "decimal n =
     (if n < 10 then [char_of (48 + n)]
      else decimal (n div 10) @ [char_of (48 + n mod 10)])"

declare decimal.simps [simp del]

definition placeholder_name :: "int \<Rightarrow> string" where
  "placeholder_name n =
     [CHR 0xE5, CHR 0xAF, CHR 0xB9, CHR 0xE8, CHR 0xB1, CHR 0xA1] @
     (if n < 0 then CHR ''-'' # decimal (nat (- n)) else decimal (nat n))"

text \<open>\<^verbatim>\<open>a[a == k] = v\<close> and \<^verbatim>\<open>a[m > 0] = v\<close>; the second needs a mask of the shape of \<open>a\<close>.\<close>

definition assign_equal :: "int ndarray \<Rightarrow> int \<Rightarrow> int \<Rightarrow> int ndarray" where
  "assign_equal a k v = a\<lparr>elems := map (\<lambda>x. if x = k then v else x) (elems a)\<rparr>"

definition assign_where :: "int ndarray \<Rightarrow> real ndarray \<Rightarrow> int \<Rightarrow> py_error + int ndarray" where
  "assign_where a m v =
     (if shape m \<noteq> shape a then Inl IndexError
      else Inr (a\<lparr>elems := map2 (\<lambda>x b. if b > 0 then v else x) (elems a) (elems m)\<rparr>))"

text \<open>\<^verbatim>\<open>np.zeros_like(m, dtype=np.int32)\<close>.\<close>

definition zeros_like_int32 :: "real ndarray \<Rightarrow> int ndarray" where
  "zeros_like_int32 m =
     \<lparr>dtype = np_int32, shape = shape m, elems = replicate (length (elems m)) 0\<rparr>"

text \<open>
  The choice of the label id when the label layer exists (lines 1623 to 1659):
  \<^verbatim>\<open>
  if hasattr(labels_layer, 'metadata') and 'label_names' in labels_layer.metadata:
      self.label_names = labels_layer.metadata['label_names']
      if 'label_colors' in labels_layer.metadata:
          self.label_colors = labels_layer.metadata['label_colors']
      label_id = None
      for key, value in self.label_names.items(): ...
      if label_id is None:
          label_id = max(self.label_names.keys(), default=0) + 1
          self.label_names[label_id] = label_name
          self.label_colors[label_id] = self._generate_label_color(label_id)
  else:
      self.label_names = {}
      label_id = self.next_label_id
      self.label_names[label_id] = label_name
      self.label_colors = {label_id: self._generate_label_color(label_id)}
      self.next_label_id = label_id + 1
  \<close>
  In the first branch the widget's dictionaries are the very objects of the layer's
  metadata, so an entry added to one is added to the other.
\<close>

definition choose_label_id :: "'p widget \<Rightarrow> labels_layer \<Rightarrow> string \<Rightarrow> 'p widget \<times> int" where
  "choose_label_id w layer label_name =
     (case meta_label_names layer of
        Some names \<Rightarrow>
          (let colors = (case meta_label_colors layer of Some c \<Rightarrow> c | None \<Rightarrow> label_colors w)
           in case find_label_id names label_name of
                Some label_id \<Rightarrow> (w\<lparr>label_names := names, label_colors := colors\<rparr>, label_id)
              | None \<Rightarrow>
                  (let label_id = max_key names + 1;
                       names' = dict_set names label_id label_name;
                       colors' = dict_set colors label_id (generate_label_color label_id)
                   in (w\<lparr>label_names := names', label_colors := colors',
                          labels_layer :=
                            Some (layer\<lparr>meta_label_names := Some names',
                                    meta_label_colors :=
                                      map_option (\<lambda>c. colors') (meta_label_colors layer)\<rparr>)\<rparr>,
                       label_id)))
      | None \<Rightarrow>
          (let label_id = next_label_id w
           in (w\<lparr>label_names := [(label_id, label_name)],
                  label_colors := [(label_id, generate_label_color label_id)],
                  next_label_id := label_id + 1\<rparr>,
               label_id)))"

text \<open>
  \<^verbatim>\<open>
  def _add_mask_to_labels(self):
      if self.result_masks is None or len(self.result_masks) == 0 \
              or self.selected_mask_idx >= len(self.result_masks):
          return
      mask = self.result_masks[self.selected_mask_idx]
      binary_mask = mask_to_binary(mask)
      label_name = self.label_name_combo.currentText().strip()
      if not label_name:
          label_name = f"...{self.next_label_id}"
      if labels_layer_name in self.viewer.layers:
          labels_layer = self.viewer.layers[labels_layer_name]
          ...                                    # choose_label_id
          labels_data = labels_layer.data.copy()
          labels_data[labels_data == label_id] = 0
          labels_data[binary_mask > 0] = label_id
          labels_layer.data = labels_data
          labels_layer.metadata['label_names'] = self.label_names
          labels_layer.metadata['label_colors'] = self.label_colors
      else:
          labels_data = np.zeros_like(mask, dtype=np.int32)
          label_id = 1
          self.label_names = {label_id: label_name}
          self.label_colors = {label_id: self._generate_label_color(label_id)}
          self.next_label_id = label_id + 1
          labels_data[binary_mask > 0] = label_id
          labels_layer = self.viewer.add_labels(labels_data, name=labels_layer_name,
              metadata={'label_names': self.label_names, 'label_colors': self.label_colors})
  \<close>
  The argument \<open>combo_text\<close> is the stripped text of the name combo box.
\<close>

definition effective_label_name :: "'p widget \<Rightarrow> string \<Rightarrow> string" where
  "effective_label_name w combo_text =
     (if combo_text = [] then placeholder_name (next_label_id w) else combo_text)"

definition add_mask_to_labels :: "'p widget \<Rightarrow> string \<Rightarrow> 'p widget \<times> py_error option" where
  "add_mask_to_labels w combo_text =
     (if planes (result_masks w) = [] \<or> selected_mask_idx w \<ge> length (planes (result_masks w))
      then (w, None)
      else
        (let m = plane (result_masks w) (selected_mask_idx w);
             binary_mask = mask_to_binary m default_threshold;
             label_name = effective_label_name w combo_text
         in case labels_layer w of
              Some layer \<Rightarrow>
                (case choose_label_id w layer label_name of
                   (w1, label_id) \<Rightarrow>
                     (case assign_where (assign_equal (raster layer) label_id 0) binary_mask
                             label_id of
                        Inl e \<Rightarrow> (w1, Some e)
                      | Inr labels_data \<Rightarrow>
                          (w1\<lparr>labels_layer :=
                                Some \<lparr>raster = labels_data,
                                      meta_label_names = Some (label_names w1),
                                      meta_label_colors = Some (label_colors w1)\<rparr>\<rparr>,
                           None)))
            | None \<Rightarrow>
                (let label_id = 1;
                     names = [(label_id, label_name)];
                     colors = [(label_id, generate_label_color label_id)]
                 in case assign_where (zeros_like_int32 m) binary_mask label_id of
                      Inl e \<Rightarrow>
                        (w\<lparr>label_names := names, label_colors := colors,
                           next_label_id := label_id + 1\<rparr>, Some e)
                    | Inr labels_data \<Rightarrow>
                        (w\<lparr>label_names := names, label_colors := colors,
                           next_label_id := label_id + 1,
                           labels_layer :=
                             Some \<lparr>raster = labels_data, meta_label_names = Some names,
                                   meta_label_colors = Some colors\<rparr>\<rparr>,
                         None))))"

text \<open>
  \<^verbatim>\<open>
  def _clear_all_labels(self):
      if labels_layer_name not in self.viewer.layers:
          return
      reply = QMessageBox.question(...)
      if reply == QMessageBox.StandardButton.Yes:
          self.viewer.layers.remove(labels_layer_name)
          self.label_names = {}
          self.label_colors = {}
          self.next_label_id = 1
  \<close>
\<close>

definition clear_all_labels :: "'p widget \<Rightarrow> bool \<Rightarrow> 'p widget" where
  "clear_all_labels w reply_yes =
     (if labels_layer w = None then w
      else if reply_yes then
        w\<lparr>labels_layer := None, label_names := [], label_colors := [], next_label_id := 1\<rparr>
      else w)"

subsection \<open>\_adjust\_mask\_boundary\<close>

text \<open>
  \<^verbatim>\<open>cv2.dilate\<close> and \<^verbatim>\<open>cv2.erode\<close> belong to OpenCV; the method is modelled for any pair
  of functions in their place.  \<open>cv2_3x3\<close> is the pair for the call the method makes on a
  two-dimensional mask (a 3 by 3 kernel of ones, one iteration, the default border): a
  pixel becomes the maximum, respectively the minimum, of the pixels of its 3 by 3
  neighbourhood that lie inside the image.
\<close>

record cv2_api =
  cv2_dilate :: "real ndarray \<Rightarrow> real ndarray"
  cv2_erode :: "real ndarray \<Rightarrow> real ndarray"

definition neighbours :: "nat \<Rightarrow> nat \<Rightarrow> real list \<Rightarrow> nat \<Rightarrow> nat \<Rightarrow> real list" where
  "neighbours H W xs i j =
     concat (map (\<lambda>i'. map (\<lambda>j'. xs ! (i' * W + j')) [j - 1 ..< min W (j + 2)])
               [i - 1 ..< min H (i + 2)])"

definition morph3x3 :: "(real \<Rightarrow> real \<Rightarrow> real) \<Rightarrow> real ndarray \<Rightarrow> real ndarray" where
  "morph3x3 f a =
     (case shape a of
        [H, W] \<Rightarrow>
          a\<lparr>elems :=
              concat (map (\<lambda>i. map (\<lambda>j. fold f (neighbours H W (elems a) i j)
                                            (elems a ! (i * W + j)))
                                  [0 ..< W])
                        [0 ..< H])\<rparr>
      | _ \<Rightarrow> a)"

definition cv2_3x3 :: cv2_api where
  "cv2_3x3 = \<lparr>cv2_dilate = morph3x3 max, cv2_erode = morph3x3 min\<rparr>"

text \<open>
  \<^verbatim>\<open>
  def _adjust_mask_boundary(self, operation_type):
      if self.result_masks is None or len(self.result_masks) == 0 \
              or self.selected_mask_idx >= len(self.result_masks):
          return
      mask = self.result_masks[self.selected_mask_idx]
      binary_mask = mask_to_binary(mask)
      kernel = np.ones((3, 3), np.uint8)
      if operation_type > 0:
          adjusted_mask = cv2.dilate(binary_mask.astype(np.uint8), kernel, iterations=1)
      else:
          adjusted_mask = cv2.erode(binary_mask.astype(np.uint8), kernel, iterations=1)
      self.result_masks[self.selected_mask_idx] = adjusted_mask.astype(np.float32)
      self._display_mask(self.result_masks[self.selected_mask_idx])
      if preview_layer_name in self.viewer.layers:
          self.viewer.layers[preview_layer_name].data = adjusted_mask * 255
  \<close>
\<close>

definition adjusted_mask_of :: "cv2_api \<Rightarrow> real ndarray \<Rightarrow> int \<Rightarrow> real ndarray" where
  "adjusted_mask_of cv m operation_type =
     (let binary_mask = mask_to_binary m default_threshold
      in if operation_type > 0 then cv2_dilate cv (astype binary_mask np_uint8)
         else cv2_erode cv (astype binary_mask np_uint8))"

definition adjust_mask_boundary ::
  "cv2_api \<Rightarrow> 'p widget \<Rightarrow> int \<Rightarrow> 'p widget \<times> py_error option" where
  "adjust_mask_boundary cv w operation_type =
     (if planes (result_masks w) = [] \<or> selected_mask_idx w \<ge> length (planes (result_masks w))
      then (w, None)
      else
        (let m = plane (result_masks w) (selected_mask_idx w);
             adjusted_mask = adjusted_mask_of cv m operation_type
         in case set_plane (result_masks w) (selected_mask_idx w)
                   (astype adjusted_mask np_float32) of
              Inl e \<Rightarrow> (w, Some e)
            | Inr masks' \<Rightarrow>
                (let w1 = display_mask (w\<lparr>result_masks := masks'\<rparr>)
                            (plane masks' (selected_mask_idx w))
                 in (w1\<lparr>preview_layer :=
                          map_option (\<lambda>_. times_scalar adjusted_mask 255) (preview_layer w1)\<rparr>,
                     None))))"

subsection \<open>\_update\_selected\_mask and \_preview\_selected\_mask\<close>

text \<open>
  \<^verbatim>\<open>
  def _update_selected_mask(self, index):
      if (index < 0 or self.result_masks is None or len(self.result_masks) == 0
              or index >= len(self.result_masks)):
          return
      self.selected_mask_idx = index
      self._display_mask(self.result_masks[index])
      if preview_layer_name in self.viewer.layers and self.result_masks is not None:
          mask = self.result_masks[index]
          binary_mask = mask_to_binary(mask)
          self.viewer.layers[preview_layer_name].data = binary_mask.astype(np.uint8) * 255
  \<close>
  \<open>_preview_selected_mask\<close> has the guard of \<open>_add_mask_to_labels\<close> and shows the same
  array in the preview layer, creating the layer if needed.
\<close>

definition preview_array :: "real ndarray \<Rightarrow> real ndarray" where
  "preview_array m = times_scalar (astype (mask_to_binary m default_threshold) np_uint8) 255"

definition update_selected_mask :: "'p widget \<Rightarrow> int \<Rightarrow> 'p widget" where
  "update_selected_mask w index =
     (if index < 0 \<or> planes (result_masks w) = [] \<or> index \<ge> int (length (planes (result_masks w)))
      then w
      else
        (let w1 = display_mask (w\<lparr>selected_mask_idx := nat index\<rparr>)
                    (plane (result_masks w) (nat index))
         in w1\<lparr>preview_layer :=
                 map_option (\<lambda>_. preview_array (plane (result_masks w) (nat index)))
                   (preview_layer w1)\<rparr>))"

definition preview_selected_mask :: "'p widget \<Rightarrow> 'p widget" where
  "preview_selected_mask w =
     (if planes (result_masks w) = [] \<or> selected_mask_idx w \<ge> length (planes (result_masks w))
      then w
      else w\<lparr>preview_layer :=
               Some (preview_array (plane (result_masks w) (selected_mask_idx w)))\<rparr>)"

subsection \<open>\_on\_layer\_change\<close>

text \<open>
  The handler of the viewer's layer events refreshes the image combo box (an event of the
  host in this model) and takes the label map over from the label layer:
  \<^verbatim>\<open>
  if labels_layer_name in self.viewer.layers:
      labels_layer = self.viewer.layers[labels_layer_name]
      if hasattr(labels_layer, 'metadata'):
          if 'label_names' in labels_layer.metadata:
              self.label_names = labels_layer.metadata['label_names']
              if self.label_names:
                  self.next_label_id = max(self.label_names.keys()) + 1
          if 'label_colors' in labels_layer.metadata:
              self.label_colors = labels_layer.metadata['label_colors']
  \<close>
\<close>

definition on_layer_change :: "'p widget \<Rightarrow> 'p widget" where
  "on_layer_change w =
     (case labels_layer w of
        None \<Rightarrow> w
      | Some layer \<Rightarrow>
          (let w1 = (case meta_label_names layer of
                       None \<Rightarrow> w
                     | Some names \<Rightarrow>
                         w\<lparr>label_names := names,
                           next_label_id :=
                             (if names \<noteq> [] then max_key names + 1 else next_label_id w)\<rparr>)
           in case meta_label_colors layer of
                None \<Rightarrow> w1
              | Some colors \<Rightarrow> w1\<lparr>label_colors := colors\<rparr>))"

section \<open>The notions the properties are stated with\<close>

subsection \<open>Prompts\<close>


definition rectangle_records :: "shape_record list \<Rightarrow> shape_record list" where
  "rectangle_records shapes = filter (\<lambda>s. shape_type s = Some ''rectangle'') shapes"




text \<open>The box of the extrema of a list of vertices \<open>(y, x)\<close>, as \<open>[xmin, ymin, xmax, ymax]\<close>.\<close>

definition extrema_box :: "real list list \<Rightarrow> real list" where
  "extrema_box vs =
     (let xs = map (\<lambda>p. p ! 1) vs; ys = map (\<lambda>p. p ! 0) vs
      in [Min (set xs), Min (set ys), Max (set xs), Max (set ys)])"

definition positive_extent :: "real list list \<Rightarrow> bool" where
  "positive_extent vs \<longleftrightarrow>
     Min (set (map (\<lambda>p. p ! 1) vs)) < Max (set (map (\<lambda>p. p ! 1) vs)) \<and>
     Min (set (map (\<lambda>p. p ! 0) vs)) < Max (set (map (\<lambda>p. p ! 0) vs))"

subsection \<open>The best candidate\<close>

text \<open>The first index at which a score list takes its maximum.\<close>

definition is_first_argmax :: "real list \<Rightarrow> nat \<Rightarrow> bool" where
  "is_first_argmax scores b \<longleftrightarrow>
     b < length scores \<and>
     (\<forall>j < length scores. scores ! j \<le> scores ! b) \<and>
     (\<forall>j < b. scores ! j < scores ! b)"

subsection \<open>A predictor to run the wrapper with\<close>

text \<open>
  A small predictor in the place of the external one: its state is the image whose
  embedding it holds, if any; \<open>set_image\<close> always succeeds; \<open>predict\<close> raises without an
  image (as \<open>SamPredictor.predict\<close> does) and otherwise returns one candidate, the
  positive pixels of the image it holds, with score \<open>0.9\<close>.
\<close>

definition sample_api :: "real ndarray option sam_api" where
  "sample_api =
     \<lparr>new_predictor = None,
      reset_image = (\<lambda>p. None),
      predictor_set_image = (\<lambda>p img. (Some img, None)),
      predictor_predict =
        (\<lambda>p pts box multimask.
           case p of
             None \<Rightarrow> Inl RuntimeError
           | Some img \<Rightarrow>
               Inr (\<lparr>stack_dtype = np_bool, plane_shape = shape img,
                      planes = [map (\<lambda>x. if x > 0 then 1 else 0) (elems img)]\<rparr>,
                    [0.9])),
      model_to = (\<lambda>d. True),
      normalize_image = Inr\<rparr>"

subsection \<open>The label map\<close>

text \<open>
  The binary mask an accept works with, and the colour dictionary it starts from (the
  one of the layer's metadata if there is one, else the widget's).
\<close>

definition accepted_mask :: "'p widget \<Rightarrow> real ndarray" where
  "accepted_mask w =
     mask_to_binary (plane (result_masks w) (selected_mask_idx w)) default_threshold"

definition layer_colors :: "'p widget \<Rightarrow> labels_layer \<Rightarrow> real list dict" where
  "layer_colors w layer =
     (case meta_label_colors layer of Some c \<Rightarrow> c | None \<Rightarrow> label_colors w)"

text \<open>
  The states the widget reaches: from the initial state, by its own methods and by the
  events of the host that the model covers (the model finishes loading; the user adds,
  removes or selects image layers and edits the annotation layer).  The host never
  touches the label layer here.
\<close>

inductive reachable :: "'p sam_api \<Rightarrow> cv2_api \<Rightarrow> 'p widget \<Rightarrow> bool"
  for api :: "'p sam_api" and cv :: cv2_api where
  start: "reachable api cv init_widget"
| model_loaded:
    "reachable api cv w \<Longrightarrow>
     reachable api cv (w\<lparr>model_loaded := True, model := Some (init_wrapper api dev)\<rparr>)"
| layers_changed:
    "reachable api cv w \<Longrightarrow>
     reachable api cv (w\<lparr>image_combo := c, image_combo_text := t, combo_layers := ls\<rparr>)"
| annotations_edited:
    "reachable api cv w \<Longrightarrow> reachable api cv (w\<lparr>annotation_layer := a\<rparr>)"
| set_current_image:
    "reachable api cv w \<Longrightarrow> reachable api cv (fst (set_current_image api w))"
| save_results:
    "reachable api cv w \<Longrightarrow> reachable api cv (fst (save_results w res))"
| update_selected_mask:
    "reachable api cv w \<Longrightarrow> reachable api cv (update_selected_mask w index)"
| preview_selected_mask:
    "reachable api cv w \<Longrightarrow> reachable api cv (preview_selected_mask w)"
| adjust_mask_boundary:
    "reachable api cv w \<Longrightarrow> reachable api cv (fst (adjust_mask_boundary cv w operation_type))"
| add_mask_to_labels:
    "reachable api cv w \<Longrightarrow> reachable api cv (fst (add_mask_to_labels w combo_text))"
| clear_annotations:
    "reachable api cv w \<Longrightarrow> reachable api cv (clear_annotations w)"
| clear_all_labels:
    "reachable api cv w \<Longrightarrow> reachable api cv (clear_all_labels w reply_yes)"
| on_layer_change:
    "reachable api cv w \<Longrightarrow> reachable api cv (on_layer_change w)"


section \<open>Properties of utils.py\<close>

subsection \<open>mask\_to\_binary\<close>

lemma cast_value_01: "cast_value d (if b then 1 else 0) = (if b then 1 else 0)"
  by (simp add: cast_value_def)

lemma elems_mask_to_binary:
  "elems (mask_to_binary m t) =
     map (\<lambda>x. if x > (if dtype m \<in> {np_uint8, np_int32, np_int64} then 0 else t) then 1 else 0)
       (elems m)"
  by (simp add: mask_to_binary_def astype_def greater_than_def cast_value_01 comp_def)


lemma shape_mask_to_binary: "shape (mask_to_binary m t) = shape m"
  by (simp add: mask_to_binary_def astype_def greater_than_def)

lemma length_mask_to_binary: "length (elems (mask_to_binary m t)) = length (elems m)"
  by (simp add: elems_mask_to_binary)

lemma values_mask_to_binary: "set (elems (mask_to_binary m t)) \<subseteq> {0, 1}"
  by (auto simp: elems_mask_to_binary)





subsection \<open>The prompt conversions\<close>

text \<open>
  The filter over records that all have a shape type, and over a list with a record that lacks one.
\<close>

lemma shapes_of_type_typed:
  "\<forall>s \<in> set shapes. shape_type s \<noteq> None \<Longrightarrow>
   shapes_of_type ty shapes = Inr (filter (\<lambda>s. shape_type s = Some ty) shapes)"
  by (induction shapes) (auto simp: getitem_def)

lemma shapes_of_type_untyped:
  "\<exists>s \<in> set shapes. shape_type s = None \<Longrightarrow> shapes_of_type ty shapes = Inl KeyError"
proof (induction shapes)
  case Nil
  then show ?case by simp
next
  case (Cons s ss)
  show ?case
  proof (cases "shape_type s")
    case None
    then show ?thesis by (simp add: getitem_def)
  next
    case (Some t)
    with Cons.prems have "\<exists>s \<in> set ss. shape_type s = None" by auto
    with Cons.IH Some show ?thesis by (simp add: getitem_def)
  qed
qed

lemma map_raising_all_Inr:
  "\<forall>x \<in> set xs. f x = Inr (g x) \<Longrightarrow> map_raising f xs = Inr (map g xs)"
  by (induction xs) auto

lemma map_raising_item_short:
  "\<exists>p \<in> set ps. length p \<le> i \<Longrightarrow> map_raising (\<lambda>p. item p i) ps = Inl IndexError"
proof (induction ps)
  case Nil
  then show ?case by simp
next
  case (Cons p ps)
  show ?case
  proof (cases "length p \<le> i")
    case True
    then show ?thesis by (simp add: item_def)
  next
    case False
    with Cons.prems have "\<exists>p \<in> set ps. length p \<le> i" by auto
    with Cons.IH False show ?thesis by (simp add: item_def)
  qed
qed







lemma py_min_Min: "xs \<noteq> [] \<Longrightarrow> py_min xs = Inr (Min (set xs))"
  using Min.set_eq_fold [of "hd xs" "tl xs"] by (cases xs) simp_all

lemma py_max_Max: "xs \<noteq> [] \<Longrightarrow> py_max xs = Inr (Max (set xs))"
  using Max.set_eq_fold [of "hd xs" "tl xs"] by (cases xs) simp_all

lemma map_raising_item:
  "\<forall>p \<in> set ps. i < length p \<Longrightarrow> map_raising (\<lambda>p. item p i) ps = Inr (map (\<lambda>p. p ! i) ps)"
  by (intro map_raising_all_Inr) (simp add: item_def)

lemma box_of_rect_no_data: "data rect = None \<Longrightarrow> box_of_rect rect = Inl KeyError"
  by (simp add: box_of_rect_def getitem_def)

lemma box_of_rect_few: "data rect = Some d \<Longrightarrow> length d < 4 \<Longrightarrow> box_of_rect rect = Inr []"
  by (simp add: box_of_rect_def getitem_def)

lemma box_of_rect_short_vertex:
  assumes "data rect = Some d" "4 \<le> length d" "\<exists>p \<in> set d. length p < 2"
  shows "box_of_rect rect = Inl IndexError"
proof (cases "\<exists>p \<in> set d. length p \<le> 1")
  case True
  then have "map_raising (\<lambda>p. item p 1) d = Inl IndexError" by (rule map_raising_item_short)
  with assms show ?thesis by (simp add: box_of_rect_def getitem_def)
next
  case False
  with assms(3) show ?thesis by (auto simp: not_le)
qed

lemma box_of_rect_vertices:
  assumes "data rect = Some d" "4 \<le> length d" "\<forall>p \<in> set d. 2 \<le> length p"
  shows "box_of_rect rect = Inr (if positive_extent d then extrema_box d else [])"
proof -
  define xs where "xs = map (\<lambda>p. p ! 1) d"
  define ys where "ys = map (\<lambda>p. p ! 0) d"
  define x_min where "x_min = Min (set xs)"
  define y_min where "y_min = Min (set ys)"
  define x_max where "x_max = Max (set xs)"
  define y_max where "y_max = Max (set ys)"
  have x: "map_raising (\<lambda>p. item p 1) d = Inr xs"
    unfolding xs_def using assms(3) by (intro map_raising_item) auto
  have y: "map_raising (\<lambda>p. item p 0) d = Inr ys"
    unfolding ys_def using assms(3) by (intro map_raising_item) auto
  have ne: "d \<noteq> []" using assms(2) by auto
  then have nx: "xs \<noteq> []" and ny: "ys \<noteq> []" by (simp_all add: xs_def ys_def)
  have m: "py_min xs = Inr x_min" "py_min ys = Inr y_min"
    "py_max xs = Inr x_max" "py_max ys = Inr y_max"
    by (simp_all add: py_min_Min py_max_Max nx ny x_min_def y_min_def x_max_def y_max_def)
  have "box_of_rect rect =
          (if x_max \<le> x_min \<or> y_max \<le> y_min then Inr [] else Inr [x_min, y_min, x_max, y_max])"
    unfolding box_of_rect_def using assms(1,2) nx ny
    by (simp only: getitem_def option.case x y m sum.case not_less [symmetric] if_False if_True
        simp_thms)
  moreover have "positive_extent d \<longleftrightarrow> \<not> (x_max \<le> x_min \<or> y_max \<le> y_min)"
    unfolding positive_extent_def x_min_def y_min_def x_max_def y_max_def xs_def ys_def
    by (simp only: not_le de_Morgan_disj)
  moreover have "extrema_box d = [x_min, y_min, x_max, y_max]"
    unfolding extrema_box_def x_min_def y_min_def x_max_def y_max_def xs_def ys_def
    by (simp only: Let_def)
  ultimately show ?thesis by simp
qed


text \<open>
  Claim C4, as the code has it.  On a list of records that all have a shape type, the
  box conversion looks at the last rectangle-type record only.  It returns the empty
  array when there is no rectangle, when the rectangle has no data or a vertex with
  fewer than two coordinates (the \<open>KeyError\<close> or \<open>IndexError\<close> is caught), when it has
  fewer than four vertices, and when the extrema of its vertices span no positive width
  or height; otherwise it returns \<open>[xmin, ymin, xmax, ymax]\<close> of the extrema.
\<close>

theorem shapes_to_box_correct:
  assumes "\<forall>s \<in> set shapes. shape_type s \<noteq> None"
  shows "shapes_to_box shapes =
           Inr (if rectangle_records shapes = [] then []
                else case data (last (rectangle_records shapes)) of
                       None \<Rightarrow> []
                     | Some d \<Rightarrow>
                         if length d < 4 then []
                         else if \<exists>p \<in> set d. length p < 2 then []
                         else if positive_extent d then extrema_box d
                         else [])"
proof -
  define rs where "rs = rectangle_records shapes"
  have typed: "shapes_of_type ''rectangle'' shapes = Inr rs"
    using assms by (simp add: shapes_of_type_typed rectangle_records_def rs_def)
  show ?thesis
  proof (cases "rs = []")
    case True
    with typed show ?thesis by (simp add: shapes_to_box_def rs_def [symmetric])
  next
    case False
    then have ne: "shapes \<noteq> []" by (auto simp: rs_def rectangle_records_def)
    have unfold: "shapes_to_box shapes =
        (case box_of_rect (last rs) of
           Inl e \<Rightarrow> if e \<in> {IndexError, KeyError, ValueError} then Inr [] else Inl e
         | Inr box \<Rightarrow> Inr box)"
      using typed False ne by (simp add: shapes_to_box_def)
    show ?thesis
    proof (cases "data (last rs)")
      case None
      then show ?thesis
        using False unfold by (simp add: box_of_rect_no_data rs_def [symmetric])
    next
      case (Some d)
      consider "length d < 4" | "4 \<le> length d" "\<exists>p \<in> set d. length p < 2"
        | "4 \<le> length d" "\<forall>p \<in> set d. 2 \<le> length p"
        by (meson not_less)
      then show ?thesis
      proof cases
        case 1
        then show ?thesis
          using False unfold Some by (simp add: box_of_rect_few rs_def [symmetric])
      next
        case 2
        then have "box_of_rect (last rs) = Inl IndexError"
          using Some by (intro box_of_rect_short_vertex)
        with 2 show ?thesis
          using False unfold Some by (simp add: rs_def [symmetric])
      next
        case 3
        then have "box_of_rect (last rs) = Inr (if positive_extent d then extrema_box d else [])"
          using Some by (intro box_of_rect_vertices)
        moreover have "\<not> (\<exists>p \<in> set d. length p < 2)" using 3(2) by (auto simp: not_less)
        ultimately show ?thesis
          using 3(1) False unfold Some by (simp add: rs_def [symmetric])
      qed
    qed
  qed
qed

text \<open>
  A record without a shape type makes the filter raise, before the \<^verbatim>\<open>try\<close> is
  entered: the \<open>KeyError\<close> leaves the function.
\<close>

theorem shapes_to_box_untyped_counterexample:
  "shapes_to_box
     [\<lparr>shape_type = None, data = Some [[10, 10], [10, 20], [20, 20], [20, 10]]\<rparr>]
   = Inl KeyError"
  by (simp add: shapes_to_box_def getitem_def)



text \<open>
  The theorem on six inputs: the last of two rectangles wins and its vertices
  \<open>(10,10), (10,20), (20,20), (20,10)\<close> give \<open>[10, 10, 20, 20]\<close>; no rectangle; two
  vertices only; no height; no data; a vertex with one coordinate.
\<close>

theorem shapes_to_box_correct_witness:
  "shapes_to_box
     [\<lparr>shape_type = Some ''rectangle'', data = Some [[0, 0], [0, 5], [5, 5], [5, 0]]\<rparr>,
      \<lparr>shape_type = Some ''rectangle'', data = Some [[10, 10], [10, 20], [20, 20], [20, 10]]\<rparr>,
      \<lparr>shape_type = Some ''point'', data = Some [[30, 30]]\<rparr>]
     = Inr [10, 10, 20, 20] \<and>
   shapes_to_box [\<lparr>shape_type = Some ''point'', data = Some [[30, 30]]\<rparr>] = Inr [] \<and>
   shapes_to_box [\<lparr>shape_type = Some ''rectangle'', data = Some [[1, 2], [3, 4]]\<rparr>] = Inr [] \<and>
   shapes_to_box
     [\<lparr>shape_type = Some ''rectangle'', data = Some [[1, 7], [3, 7], [3, 7], [1, 7]]\<rparr>]
     = Inr [] \<and>
   shapes_to_box [\<lparr>shape_type = Some ''rectangle'', data = None\<rparr>] = Inr [] \<and>
   shapes_to_box
     [\<lparr>shape_type = Some ''rectangle'', data = Some [[1, 2], [3], [3, 4], [1, 4]]\<rparr>]
     = Inr []"
  using
    shapes_to_box_correct [of
      "[\<lparr>shape_type = Some ''rectangle'', data = Some [[0, 0], [0, 5], [5, 5], [5, 0]]\<rparr>,
        \<lparr>shape_type = Some ''rectangle'', data = Some [[10, 10], [10, 20], [20, 20], [20, 10]]\<rparr>,
        \<lparr>shape_type = Some ''point'', data = Some [[30, 30]]\<rparr>]"]
    shapes_to_box_correct [of "[\<lparr>shape_type = Some ''point'', data = Some [[30, 30]]\<rparr>]"]
    shapes_to_box_correct [of
      "[\<lparr>shape_type = Some ''rectangle'', data = Some [[1, 2], [3, 4]]\<rparr>]"]
    shapes_to_box_correct [of
      "[\<lparr>shape_type = Some ''rectangle'', data = Some [[1, 7], [3, 7], [3, 7], [1, 7]]\<rparr>]"]
    shapes_to_box_correct [of "[\<lparr>shape_type = Some ''rectangle'', data = None\<rparr>]"]
    shapes_to_box_correct [of
      "[\<lparr>shape_type = Some ''rectangle'', data = Some [[1, 2], [3], [3, 4], [1, 4]]\<rparr>]"]
  by (simp add: rectangle_records_def positive_extent_def extrema_box_def)

section \<open>Properties of mobilesam\_wrapper.py\<close>

subsection \<open>The best index\<close>

text \<open>
  The scan keeps the first index of the maximum of the scores read so far.
\<close>

lemma argmax_scan_first:
  assumes "b < length pre" "v = pre ! b" "\<forall>j < length pre. pre ! j \<le> v" "\<forall>j < b. pre ! j < v"
  shows "is_first_argmax (pre @ xs) (argmax_scan xs (length pre) b v)"
  using assms
proof (induction xs arbitrary: pre b v)
  case Nil
  then show ?case by (simp add: is_first_argmax_def)
next
  case (Cons x xs)
  show ?case
  proof (cases "x > v")
    case True
    have "is_first_argmax ((pre @ [x]) @ xs) (argmax_scan xs (length (pre @ [x])) (length pre) x)"
    proof (rule Cons.IH)
      show "length pre < length (pre @ [x])" by simp
      show "x = (pre @ [x]) ! length pre" by simp
      show "\<forall>j < length (pre @ [x]). (pre @ [x]) ! j \<le> x"
        using Cons.prems(3) True by (auto simp: nth_append less_Suc_eq intro: less_imp_le order_trans)
      show "\<forall>j < length pre. (pre @ [x]) ! j < x"
        using Cons.prems(3) True by (auto simp: nth_append intro: le_less_trans)
    qed
    with True show ?thesis by simp
  next
    case False
    have "is_first_argmax ((pre @ [x]) @ xs) (argmax_scan xs (length (pre @ [x])) b v)"
    proof (rule Cons.IH)
      show "b < length (pre @ [x])" using Cons.prems(1) by simp
      show "v = (pre @ [x]) ! b" using Cons.prems(1,2) by (simp add: nth_append)
      show "\<forall>j < length (pre @ [x]). (pre @ [x]) ! j \<le> v"
        using Cons.prems(3) False by (auto simp: nth_append less_Suc_eq)
      show "\<forall>j < b. (pre @ [x]) ! j < v"
        using Cons.prems(1,4) by (auto simp: nth_append)
    qed
    with False show ?thesis by simp
  qed
qed

lemma argmax_first:
  "scores \<noteq> [] \<Longrightarrow> \<exists>b. argmax scores = Inr b \<and> is_first_argmax scores b"
proof (cases scores)
  case Nil
  assume "scores \<noteq> []" with Nil show ?thesis by simp
next
  case (Cons x r)
  have "is_first_argmax ([x] @ r) (argmax_scan r (length [x]) 0 x)"
    by (rule argmax_scan_first) simp_all
  with Cons show ?thesis by (simp add: argmax_def)
qed

lemma argmax_empty: "argmax [] = Inl ValueError"
  by (simp add: argmax_def)

lemma first_argmax_unique:
  assumes "is_first_argmax scores b" "is_first_argmax scores b'"
  shows "b = b'"
proof (rule ccontr)
  assume "b \<noteq> b'"
  then consider "b < b'" | "b' < b" by (auto simp: neq_iff)
  then show False
  proof cases
    case 1
    with assms(2) have "scores ! b < scores ! b'" by (simp add: is_first_argmax_def)
    moreover from assms have "scores ! b' \<le> scores ! b" by (simp add: is_first_argmax_def)
    ultimately show False by simp
  next
    case 2
    with assms(1) have "scores ! b' < scores ! b" by (simp add: is_first_argmax_def)
    moreover from assms have "scores ! b \<le> scores ! b'" by (simp add: is_first_argmax_def)
    ultimately show False by simp
  qed
qed

lemma with_best_Inr:
  "with_best r = Inr (masks, scores, best) \<longleftrightarrow>
     r = Inr (masks, scores) \<and> argmax scores = Inr best"
  by (auto simp: with_best_def split: sum.splits prod.splits)

lemma with_best_returned:
  assumes "with_best r = Inr (masks, scores, best)"
  shows "scores \<noteq> [] \<and> is_first_argmax scores best \<and> (\<forall>b. is_first_argmax scores b \<longrightarrow> b = best)"
proof -
  from assms have a: "argmax scores = Inr best" by (simp add: with_best_Inr)
  then have ne: "scores \<noteq> []" by (auto simp: argmax_def)
  from argmax_first [OF ne] a have f: "is_first_argmax scores best" by auto
  with ne show ?thesis by (auto dest: first_argmax_unique)
qed

lemma with_best_total:
  assumes "scores \<noteq> []"
  shows "\<exists>best. with_best (Inr (masks, scores)) = Inr (masks, scores, best)"
  using argmax_first [OF assms] by (auto simp: with_best_def)

text \<open>
  Claim C8.  Whenever one of the three predict variants returns masks, scores and a best
  index, the scores are not empty and the best index is the first index at which the
  scores take their maximum: no score is larger, and every score before it is strictly
  smaller, so on a tie the smallest index wins; it is the only index with that
  property, so exactly one candidate is marked best.  The variants do return, with the
  predictor's masks and scores, whenever an embedding exists, the box has four
  elements and the predictor returns a non-empty score array.
\<close>

theorem best_index_is_first_argmax:
  "(predict_from_points api w points labels multimask = Inr (masks, scores, best) \<or>
    predict_from_box api w box multimask = Inr (masks, scores, best) \<or>
    predict_from_box_and_points api w box points labels multimask = Inr (masks, scores, best)
    \<longrightarrow> scores \<noteq> [] \<and> is_first_argmax scores best \<and>
        (\<forall>b. is_first_argmax scores b \<longrightarrow> b = best)) \<and>
   (image_embeddings w \<noteq> None \<and> scores \<noteq> [] \<longrightarrow>
      (predictor_predict api (predictor w) (Some (points, labels)) None multimask
         = Inr (masks, scores) \<longrightarrow>
       (\<exists>b. predict_from_points api w points labels multimask = Inr (masks, scores, b))) \<and>
      (length box = 4 \<and>
       predictor_predict api (predictor w) None (Some box) multimask = Inr (masks, scores) \<longrightarrow>
       (\<exists>b. predict_from_box api w box multimask = Inr (masks, scores, b))) \<and>
      (length box = 4 \<and>
       predictor_predict api (predictor w) (Some (points, labels)) (Some box) multimask
         = Inr (masks, scores) \<longrightarrow>
       (\<exists>b. predict_from_box_and_points api w box points labels multimask
              = Inr (masks, scores, b))))"
proof (intro conjI impI)
  assume "predict_from_points api w points labels multimask = Inr (masks, scores, best) \<or>
    predict_from_box api w box multimask = Inr (masks, scores, best) \<or>
    predict_from_box_and_points api w box points labels multimask = Inr (masks, scores, best)"
  then obtain r where "with_best r = Inr (masks, scores, best)"
    by (auto simp: predict_from_points_def predict_from_box_def predict_from_box_and_points_def
        split: if_splits)
  then have *: "scores \<noteq> [] \<and> is_first_argmax scores best \<and>
      (\<forall>b. is_first_argmax scores b \<longrightarrow> b = best)"
    by (rule with_best_returned)
  from * show "scores \<noteq> []" by simp
  from * show "is_first_argmax scores best" by simp
  from * show "\<forall>b. is_first_argmax scores b \<longrightarrow> b = best" by simp
next
  assume h: "image_embeddings w \<noteq> None \<and> scores \<noteq> []"
    and p: "predictor_predict api (predictor w) (Some (points, labels)) None multimask
         = Inr (masks, scores)"
  with with_best_total [of scores masks]
  show "\<exists>b. predict_from_points api w points labels multimask = Inr (masks, scores, b)"
    by (simp add: predict_from_points_def)
next
  assume h: "image_embeddings w \<noteq> None \<and> scores \<noteq> []"
    and p: "length box = 4 \<and>
       predictor_predict api (predictor w) None (Some box) multimask = Inr (masks, scores)"
  with with_best_total [of scores masks]
  show "\<exists>b. predict_from_box api w box multimask = Inr (masks, scores, b)"
    by (simp add: predict_from_box_def)
next
  assume h: "image_embeddings w \<noteq> None \<and> scores \<noteq> []"
    and p: "length box = 4 \<and>
       predictor_predict api (predictor w) (Some (points, labels)) (Some box) multimask
         = Inr (masks, scores)"
  with with_best_total [of scores masks]
  show "\<exists>b. predict_from_box_and_points api w box points labels multimask
              = Inr (masks, scores, b)"
    by (simp add: predict_from_box_and_points_def)
qed


text \<open>
  The theorem on the scores \<open>[0.5, 0.9, 0.9, 0.1]\<close>: the tie of the indices 1 and 2 goes
  to index 1.
\<close>

theorem best_index_is_first_argmax_witness:
  "predict_from_points
     (sample_api\<lparr>predictor_predict := (\<lambda>p pts box multimask.
        Inr (\<lparr>stack_dtype = np_bool, plane_shape = [1, 1], planes = [[1], [0], [1], [1]]\<rparr>,
             [0.5, 0.9, 0.9, 0.1]))\<rparr>)
     ((init_wrapper sample_api ''cpu'')\<lparr>image_embeddings := Some True\<rparr>) [[5, 5]] [1] True
     = Inr (\<lparr>stack_dtype = np_bool, plane_shape = [1, 1], planes = [[1], [0], [1], [1]]\<rparr>,
            [0.5, 0.9, 0.9, 0.1], 1) \<and>
   is_first_argmax [0.5, 0.9, 0.9, 0.1] 1 \<and>
   \<not> is_first_argmax [0.5, 0.9, 0.9, 0.1] 2"
proof -
  let ?api = "sample_api\<lparr>predictor_predict := (\<lambda>p pts box multimask.
        Inr (\<lparr>stack_dtype = np_bool, plane_shape = [1, 1], planes = [[1], [0], [1], [1]]\<rparr>,
             [0.5, 0.9, 0.9, 0.1::real]))\<rparr>"
  let ?w = "(init_wrapper sample_api ''cpu'')\<lparr>image_embeddings := Some True\<rparr>"
  let ?masks = "\<lparr>stack_dtype = np_bool, plane_shape = [1, 1], planes = [[1], [0], [1], [1::real]]\<rparr>"
  have run: "predict_from_points ?api ?w [[5, 5]] [1] True = Inr (?masks, [0.5, 0.9, 0.9, 0.1], 1)"
    by (simp add: predict_from_points_def with_best_def argmax_def init_wrapper_def)
  from run best_index_is_first_argmax
    [of ?api ?w "[[5, 5]]" "[1]" True ?masks "[0.5, 0.9, 0.9, 0.1]" 1 "[]"]
  have first: "is_first_argmax [0.5, 0.9, 0.9, 0.1] 1"
    and only: "\<forall>b. is_first_argmax [0.5, 0.9, 0.9, 0.1] b \<longrightarrow> b = 1"
    by blast+
  from only have "\<not> is_first_argmax [0.5, 0.9, 0.9, 0.1] 2" by auto
  with run first show ?thesis by blast
qed

subsection \<open>Predicting without an embedding\<close>

text \<open>
  A fresh wrapper has no embedding, and without one every predict variant raises.
\<close>

lemma init_wrapper_no_embedding: "image_embeddings (init_wrapper api dev) = None"
  by (simp add: init_wrapper_def)

lemma predict_without_embedding:
  assumes "image_embeddings w = None"
  shows "predict_from_points api w points labels multimask = Inl ValueError"
    and "predict_from_box api w box multimask = Inl ValueError"
    and "predict_from_box_and_points api w box points labels multimask = Inl ValueError"
  using assms
  by (simp_all add: predict_from_points_def predict_from_box_def predict_from_box_and_points_def)

text \<open>
  A \<open>set_image\<close> that fails raises \<open>ValueError\<close> and leaves \<open>image_embeddings = False\<close>,
  not \<open>None\<close>; the guard of the predict variants tests for \<open>None\<close> only, so the next
  predict goes on to the predictor.
\<close>

lemma set_image_raises:
  assumes "snd (set_image api w img) \<noteq> None"
  shows "snd (set_image api w img) = Some ValueError"
    and "image_embeddings (fst (set_image api w img)) = Some False"
  using assms by (auto simp: set_image_def split: prod.splits option.splits)

lemma set_image_None: "set_image api w None = (w\<lparr>image_embeddings := Some False\<rparr>, Some ValueError)"
  by (simp add: set_image_def set_image_body_def)

lemma predict_after_failed_set_image:
  assumes "image_embeddings w = Some False"
  shows "predict_from_points api w points labels multimask =
           with_best (predictor_predict api (predictor w) (Some (points, labels)) None multimask)"
  using assms by (simp add: predict_from_points_def)

text \<open>
  Claim C1, at the input where the code departs from it.  A wrapper sets an image
  successfully, then \<open>set_image(None)\<close> fails and leaves \<open>image_embeddings = False\<close>.
  The next \<open>predict_from_points\<close> does not raise: it passes the guard and returns the
  prediction for the image that the predictor still holds from the first call.
\<close>

theorem predict_after_failed_set_image_runs:
  "snd (set_image sample_api (init_wrapper sample_api ''cpu'')
          (Some \<lparr>dtype = np_uint8, shape = [1, 2], elems = [0, 7]\<rparr>)) = None \<and>
   snd (set_image sample_api
          (fst (set_image sample_api (init_wrapper sample_api ''cpu'')
                  (Some \<lparr>dtype = np_uint8, shape = [1, 2], elems = [0, 7]\<rparr>)))
          None) = Some ValueError \<and>
   image_embeddings
     (fst (set_image sample_api
          (fst (set_image sample_api (init_wrapper sample_api ''cpu'')
                  (Some \<lparr>dtype = np_uint8, shape = [1, 2], elems = [0, 7]\<rparr>)))
          None)) = Some False \<and>
   predict_from_points sample_api
     (fst (set_image sample_api
          (fst (set_image sample_api (init_wrapper sample_api ''cpu'')
                  (Some \<lparr>dtype = np_uint8, shape = [1, 2], elems = [0, 7]\<rparr>)))
          None))
     [[0, 1]] [1] True
   = Inr (\<lparr>stack_dtype = np_bool, plane_shape = [1, 2], planes = [[0, 1]]\<rparr>, [0.9], 0)"
  by (simp add: set_image_def set_image_body_def init_wrapper_def sample_api_def
      predict_from_points_def with_best_def argmax_def)


section \<open>Properties of the widget\<close>

subsection \<open>Setting the current image\<close>

text \<open>
  \<open>_set_current_image\<close> never writes the prediction results or the mask display;
  \<open>_clear_annotations\<close> resets them, and so does \<open>_load_image_by_index\<close>, which runs
  both.
\<close>

lemma set_current_image_keeps_results:
  "result_masks (fst (set_current_image api w)) = result_masks w \<and>
   result_scores (fst (set_current_image api w)) = result_scores w \<and>
   selected_mask_idx (fst (set_current_image api w)) = selected_mask_idx w \<and>
   mask_layer (fst (set_current_image api w)) = mask_layer w"
  by (simp add: set_current_image_def split: option.splits combo_layer.splits prod.splits)

lemma clear_annotations_discards_results:
  "planes (result_masks (clear_annotations w)) = [] \<and>
   result_scores (clear_annotations w) = [] \<and>
   selected_mask_idx (clear_annotations w) = 0 \<and>
   mask_layer (clear_annotations w) = None"
  by (simp add: clear_annotations_def empty_stack_def)

lemma set_image_then_clear_discards_results:
  "snd (set_current_image api w) = None \<Longrightarrow>
   planes (result_masks (set_image_then_clear api w)) = [] \<and>
   result_scores (set_image_then_clear api w) = []"
  by (auto simp: set_image_then_clear_def clear_annotations_discards_results
      split: prod.splits option.splits)

text \<open>
  Claim C5, at the input where the code departs from it.  The widget sets image \<open>a\<close>,
  predicts from a point, and then sets image \<open>b\<close> through \<open>_set_current_image\<close>: the
  current image is \<open>b\<close>, and the candidate mask and the score predicted for \<open>a\<close> are
  still held and still displayed.  Only \<open>_clear_annotations\<close> discards them.
\<close>

theorem set_current_image_keeps_prediction:
  "(let imgA = \<lparr>dtype = np_uint8, shape = [1, 2], elems = [0, 7]\<rparr>;
        imgB = \<lparr>dtype = np_uint8, shape = [1, 2], elems = [9, 0]\<rparr>;
        w0 = init_widget\<lparr>model_loaded := True, model := Some (init_wrapper sample_api ''cpu''),
               image_combo := [''a'', ''b''], image_combo_text := ''a'',
               combo_layers := [(''a'', ImageLayer imgA), (''b'', ImageLayer imgB)]\<rparr>;
        w1 = fst (set_current_image sample_api w0);
        w2 = (case predict_from_points sample_api (the (model w1)) [[0, 1]] [1] True of
                Inr res \<Rightarrow> fst (save_results w1 res) | Inl e \<Rightarrow> w1);
        w3 = fst (set_current_image sample_api (w2\<lparr>image_combo_text := ''b''\<rparr>))
    in current_image w1 = Some imgA \<and>
       planes (result_masks w2) = [[0, 1]] \<and> result_scores w2 = [0.9] \<and>
       snd (set_current_image sample_api (w2\<lparr>image_combo_text := ''b''\<rparr>)) = None \<and>
       current_image w3 = Some imgB \<and>
       planes (result_masks w3) = [[0, 1]] \<and> result_scores w3 = [0.9] \<and>
       mask_layer w3 = Some \<lparr>dtype = np_bool, shape = [1, 2], elems = [0, 1]\<rparr> \<and>
       planes (result_masks (clear_annotations w3)) = [] \<and>
       result_scores (clear_annotations w3) = [])"
  by (simp add: Let_def set_current_image_def set_image_def set_image_body_def init_wrapper_def
      sample_api_def init_widget_def predict_from_points_def with_best_def argmax_def
      save_results_def display_mask_def plane_def clear_annotations_def empty_stack_def)

subsection \<open>Label colours\<close>





subsection \<open>Adjusting the boundary of a mask\<close>

text \<open>
  Every dtype represents 0 and 1 exactly, so a cast leaves a binary mask as it is.
\<close>

lemma cast_value_binary: "x \<in> {0, 1} \<Longrightarrow> cast_value d x = x"
  by (auto simp: cast_value_def)





subsection \<open>Accepting a mask under an existing name\<close>

text \<open>
  The binary mask of an accept has the shape and the size of the selected candidate.
\<close>

lemma shape_accepted_mask:
  "shape (accepted_mask w) = plane_shape (result_masks w)"
  by (simp add: accepted_mask_def shape_mask_to_binary plane_def)

lemma length_accepted_mask:
  "length (elems (accepted_mask w)) = length (planes (result_masks w) ! selected_mask_idx w)"
  by (simp add: accepted_mask_def length_mask_to_binary plane_def)

lemma choose_label_id_existing:
  assumes "meta_label_names layer = Some names" "find_label_id names label_name = Some L"
  shows "choose_label_id w layer label_name =
           (w\<lparr>label_names := names, label_colors := layer_colors w layer\<rparr>, L)"
  using assms by (simp add: choose_label_id_def layer_colors_def Let_def)

lemma assign_where_equal_shape:
  assumes "shape m = shape a"
  shows "assign_where a m v =
           Inr (a\<lparr>elems := map2 (\<lambda>x b. if b > 0 then v else x) (elems a) (elems m)\<rparr>)"
  using assms by (simp add: assign_where_def)

text \<open>
  Claim C2, as the code has it.  Let the label layer exist with a label map in its
  metadata, let the name of the accept be found in that map with id \<open>L\<close>, and let the
  raster have the shape of the candidates.  Then the accept raises nothing; the label
  map, and so the id of the name, and the colours are unchanged; and in the raster
  every pixel inside the new mask equals \<open>L\<close>, every pixel outside the new mask that was
  \<open>L\<close> is reset to 0, and every other pixel outside the new mask is as before.  A pixel
  of another label inside the new mask is overwritten with \<open>L\<close>.
\<close>

theorem accept_existing_label:
  assumes "selected_mask_idx w < length (planes (result_masks w))"
    and "labels_layer w = Some layer"
    and "meta_label_names layer = Some names"
    and "find_label_id names (effective_label_name w combo_text) = Some L"
    and "shape (raster layer) = plane_shape (result_masks w)"
    and "length (elems (raster layer)) = length (planes (result_masks w) ! selected_mask_idx w)"
  shows "\<exists>w' layer'.
           add_mask_to_labels w combo_text = (w', None) \<and>
           labels_layer w' = Some layer' \<and>
           label_names w' = names \<and> meta_label_names layer' = Some names \<and>
           find_label_id (label_names w') (effective_label_name w combo_text) = Some L \<and>
           label_colors w' = layer_colors w layer \<and>
           meta_label_colors layer' = Some (layer_colors w layer) \<and>
           shape (raster layer') = shape (raster layer) \<and>
           length (elems (raster layer')) = length (elems (raster layer)) \<and>
           (\<forall>k < length (elems (raster layer)).
              (elems (accepted_mask w) ! k > 0 \<longrightarrow> elems (raster layer') ! k = L) \<and>
              (\<not> elems (accepted_mask w) ! k > 0 \<and> elems (raster layer) ! k = L \<longrightarrow>
                 elems (raster layer') ! k = 0) \<and>
              (\<not> elems (accepted_mask w) ! k > 0 \<and> elems (raster layer) ! k \<noteq> L \<longrightarrow>
                 elems (raster layer') ! k = elems (raster layer) ! k))"
proof -
  define bm where "bm = accepted_mask w"
  define cleared where "cleared = assign_equal (raster layer) L 0"
  define new_data where
    "new_data = cleared\<lparr>elems := map2 (\<lambda>x b. if b > 0 then L else x) (elems cleared) (elems bm)\<rparr>"
  define w1 where "w1 = w\<lparr>label_names := names, label_colors := layer_colors w layer\<rparr>"
  define layer' where
    "layer' = \<lparr>raster = new_data, meta_label_names = Some names,
               meta_label_colors = Some (layer_colors w layer)\<rparr>"
  have ne: "planes (result_masks w) \<noteq> []" using assms(1) by auto
  have ch: "choose_label_id w layer (effective_label_name w combo_text) = (w1, L)"
    unfolding w1_def using assms(3,4) by (rule choose_label_id_existing)
  have "shape bm = shape cleared"
    using assms(5) by (simp add: bm_def shape_accepted_mask cleared_def assign_equal_def)
  then have aw: "assign_where cleared bm L = Inr new_data"
    unfolding new_data_def by (rule assign_where_equal_shape)
  have run: "add_mask_to_labels w combo_text = (w1\<lparr>labels_layer := Some layer'\<rparr>, None)"
    using assms(1,2) ne ch aw
    by (simp add: add_mask_to_labels_def Let_def accepted_mask_def [symmetric] bm_def [symmetric]
        cleared_def [symmetric] layer'_def w1_def)
  have len: "length (elems bm) = length (elems (raster layer))"
    using assms(6) by (simp add: bm_def length_accepted_mask)
  have len': "length (elems new_data) = length (elems (raster layer))"
    using len by (simp add: new_data_def cleared_def assign_equal_def)
  have px: "elems new_data ! k =
              (if elems bm ! k > 0 then L
               else if elems (raster layer) ! k = L then 0 else elems (raster layer) ! k)"
    if "k < length (elems (raster layer))" for k
    using that len by (simp add: new_data_def cleared_def assign_equal_def)
  show ?thesis
  proof (intro exI conjI)
    show "add_mask_to_labels w combo_text = (w1\<lparr>labels_layer := Some layer'\<rparr>, None)" by (rule run)
    show "labels_layer (w1\<lparr>labels_layer := Some layer'\<rparr>) = Some layer'" by simp
    show "label_names (w1\<lparr>labels_layer := Some layer'\<rparr>) = names" by (simp add: w1_def)
    show "meta_label_names layer' = Some names" by (simp add: layer'_def)
    show "find_label_id (label_names (w1\<lparr>labels_layer := Some layer'\<rparr>))
            (effective_label_name w combo_text) = Some L"
      using assms(4) by (simp add: w1_def)
    show "label_colors (w1\<lparr>labels_layer := Some layer'\<rparr>) = layer_colors w layer"
      by (simp add: w1_def)
    show "meta_label_colors layer' = Some (layer_colors w layer)" by (simp add: layer'_def)
    show "shape (raster layer') = shape (raster layer)"
      by (simp add: layer'_def new_data_def cleared_def assign_equal_def)
    show "length (elems (raster layer')) = length (elems (raster layer))"
      using len' by (simp add: layer'_def)
    show "\<forall>k < length (elems (raster layer)).
            (elems (accepted_mask w) ! k > 0 \<longrightarrow> elems (raster layer') ! k = L) \<and>
            (\<not> elems (accepted_mask w) ! k > 0 \<and> elems (raster layer) ! k = L \<longrightarrow>
               elems (raster layer') ! k = 0) \<and>
            (\<not> elems (accepted_mask w) ! k > 0 \<and> elems (raster layer) ! k \<noteq> L \<longrightarrow>
               elems (raster layer') ! k = elems (raster layer) ! k)"
      using px by (simp add: layer'_def bm_def)
  qed
qed


text \<open>
  A list of four elements, spelled out.
\<close>

lemma list_of_four: "length xs = 4 \<Longrightarrow> xs = [xs ! 0, xs ! 1, xs ! 2, xs ! 3]"
  by (auto simp: list_eq_iff_nth_eq less_Suc_eq eval_nat_numeral)

text \<open>
  The theorem on a raster \<open>[1, 1, 2, 0]\<close> and the mask \<open>[0, 1, 0, 1]\<close>, accepted under
  the name of label 1: the raster becomes \<open>[0, 1, 2, 1]\<close>, names and colours stay.
\<close>

theorem accept_existing_label_witness:
  "snd (add_mask_to_labels
          ((init_widget :: unit widget)
             \<lparr>result_masks := \<lparr>stack_dtype = np_bool, plane_shape = [1, 4], planes = [[0, 1, 0, 1]]\<rparr>,
              result_scores := [0.9],
              label_names := [(1, ''a''), (2, ''b'')],
              label_colors := [(1, [1, 0, 0, 1]), (2, [0, 1, 0, 1])],
              next_label_id := 3,
              labels_layer :=
                Some \<lparr>raster = \<lparr>dtype = np_int32, shape = [1, 4], elems = [1, 1, 2, 0]\<rparr>,
                      meta_label_names = Some [(1, ''a''), (2, ''b'')],
                      meta_label_colors = Some [(1, [1, 0, 0, 1]), (2, [0, 1, 0, 1])]\<rparr>\<rparr>)
          ''a'') = None \<and>
   label_names (fst (add_mask_to_labels
          ((init_widget :: unit widget)
             \<lparr>result_masks := \<lparr>stack_dtype = np_bool, plane_shape = [1, 4], planes = [[0, 1, 0, 1]]\<rparr>,
              result_scores := [0.9],
              label_names := [(1, ''a''), (2, ''b'')],
              label_colors := [(1, [1, 0, 0, 1]), (2, [0, 1, 0, 1])],
              next_label_id := 3,
              labels_layer :=
                Some \<lparr>raster = \<lparr>dtype = np_int32, shape = [1, 4], elems = [1, 1, 2, 0]\<rparr>,
                      meta_label_names = Some [(1, ''a''), (2, ''b'')],
                      meta_label_colors = Some [(1, [1, 0, 0, 1]), (2, [0, 1, 0, 1])]\<rparr>\<rparr>)
          ''a'')) = [(1, ''a''), (2, ''b'')] \<and>
   label_colors (fst (add_mask_to_labels
          ((init_widget :: unit widget)
             \<lparr>result_masks := \<lparr>stack_dtype = np_bool, plane_shape = [1, 4], planes = [[0, 1, 0, 1]]\<rparr>,
              result_scores := [0.9],
              label_names := [(1, ''a''), (2, ''b'')],
              label_colors := [(1, [1, 0, 0, 1]), (2, [0, 1, 0, 1])],
              next_label_id := 3,
              labels_layer :=
                Some \<lparr>raster = \<lparr>dtype = np_int32, shape = [1, 4], elems = [1, 1, 2, 0]\<rparr>,
                      meta_label_names = Some [(1, ''a''), (2, ''b'')],
                      meta_label_colors = Some [(1, [1, 0, 0, 1]), (2, [0, 1, 0, 1])]\<rparr>\<rparr>)
          ''a'')) = [(1, [1, 0, 0, 1]), (2, [0, 1, 0, 1])] \<and>
   map_option (\<lambda>l. elems (raster l)) (labels_layer (fst (add_mask_to_labels
          ((init_widget :: unit widget)
             \<lparr>result_masks := \<lparr>stack_dtype = np_bool, plane_shape = [1, 4], planes = [[0, 1, 0, 1]]\<rparr>,
              result_scores := [0.9],
              label_names := [(1, ''a''), (2, ''b'')],
              label_colors := [(1, [1, 0, 0, 1]), (2, [0, 1, 0, 1])],
              next_label_id := 3,
              labels_layer :=
                Some \<lparr>raster = \<lparr>dtype = np_int32, shape = [1, 4], elems = [1, 1, 2, 0]\<rparr>,
                      meta_label_names = Some [(1, ''a''), (2, ''b'')],
                      meta_label_colors = Some [(1, [1, 0, 0, 1]), (2, [0, 1, 0, 1])]\<rparr>\<rparr>)
          ''a''))) = Some [0, 1, 2, 1]"
proof -
  let ?layer = "\<lparr>raster = \<lparr>dtype = np_int32, shape = [1, 4], elems = [1, 1, 2, 0]\<rparr>,
                      meta_label_names = Some [(1, ''a''), (2, ''b'')],
                      meta_label_colors = Some [(1, [1, 0, 0, 1]), (2, [0, 1, 0, 1::real])]\<rparr>"
  let ?w = "(init_widget :: unit widget)
             \<lparr>result_masks := \<lparr>stack_dtype = np_bool, plane_shape = [1, 4], planes = [[0, 1, 0, 1]]\<rparr>,
              result_scores := [0.9],
              label_names := [(1, ''a''), (2, ''b'')],
              label_colors := [(1, [1, 0, 0, 1]), (2, [0, 1, 0, 1])],
              next_label_id := 3,
              labels_layer := Some ?layer\<rparr>"
  have h1: "selected_mask_idx ?w < length (planes (result_masks ?w))"
    by (simp add: init_widget_def)
  have h2: "labels_layer ?w = Some ?layer" by simp
  have h3: "meta_label_names ?layer = Some [(1, ''a''), (2, ''b'')]" by simp
  have h4: "find_label_id [(1, ''a''), (2, ''b'')] (effective_label_name ?w ''a'') = Some 1"
    by (simp add: effective_label_name_def)
  have h5: "shape (raster ?layer) = plane_shape (result_masks ?w)" by simp
  have h6: "length (elems (raster ?layer)) = length (planes (result_masks ?w) ! selected_mask_idx ?w)"
    by (simp add: init_widget_def)
  have bm: "elems (accepted_mask ?w) = [0, 1, 0, 1]"
    by (simp add: accepted_mask_def plane_def init_widget_def elems_mask_to_binary
        default_threshold_def)
  from accept_existing_label [OF h1 h2 h3 h4 h5 h6] obtain w' layer' where
    r: "add_mask_to_labels ?w ''a'' = (w', None)"
    and l: "labels_layer w' = Some layer'"
    and n: "label_names w' = [(1, ''a''), (2, ''b'')]"
    and c: "label_colors w' = layer_colors ?w ?layer"
    and len: "length (elems (raster layer')) = length (elems (raster ?layer))"
    and px: "\<forall>k < length (elems (raster ?layer)).
              (elems (accepted_mask ?w) ! k > 0 \<longrightarrow> elems (raster layer') ! k = 1) \<and>
              (\<not> elems (accepted_mask ?w) ! k > 0 \<and> elems (raster ?layer) ! k = 1 \<longrightarrow>
                 elems (raster layer') ! k = 0) \<and>
              (\<not> elems (accepted_mask ?w) ! k > 0 \<and> elems (raster ?layer) ! k \<noteq> 1 \<longrightarrow>
                 elems (raster layer') ! k = elems (raster ?layer) ! k)"
    by blast
  from px have "elems (raster layer') ! 0 = 0" "elems (raster layer') ! 1 = 1"
    "elems (raster layer') ! 2 = 2" "elems (raster layer') ! 3 = 1"
    unfolding bm by simp_all
  moreover from len have "length (elems (raster layer')) = 4" by simp
  ultimately have "elems (raster layer') = [0, 1, 2, 1]"
    using list_of_four [of "elems (raster layer')"] by simp
  then show ?thesis
    unfolding r using l n c by (simp add: layer_colors_def)
qed

text \<open>
  On the raster \<open>[2, 1]\<close> the mask \<open>[1, 0]\<close>, accepted under the name of label 1, gives
  \<open>[1, 0]\<close>: the first pixel belonged to label 2 and is now label 1.
\<close>

theorem accept_overwrites_other_label_counterexample:
  "map_option (\<lambda>l. elems (raster l)) (labels_layer (fst (add_mask_to_labels
          ((init_widget :: unit widget)
             \<lparr>result_masks := \<lparr>stack_dtype = np_bool, plane_shape = [1, 2], planes = [[1, 0]]\<rparr>,
              result_scores := [0.9],
              label_names := [(1, ''a''), (2, ''b'')],
              label_colors := [(1, [1, 0, 0, 1]), (2, [0, 1, 0, 1])],
              next_label_id := 3,
              labels_layer :=
                Some \<lparr>raster = \<lparr>dtype = np_int32, shape = [1, 2], elems = [2, 1]\<rparr>,
                      meta_label_names = Some [(1, ''a''), (2, ''b'')],
                      meta_label_colors = Some [(1, [1, 0, 0, 1]), (2, [0, 1, 0, 1])]\<rparr>\<rparr>)
          ''a''))) = Some [1, 0]"
  by (simp add: add_mask_to_labels_def init_widget_def plane_def mask_to_binary_def
      default_threshold_def astype_def greater_than_def cast_value_def is_integer_dtype_def
      effective_label_name_def choose_label_id_def assign_where_def assign_equal_def Let_def)

subsection \<open>Accepting a mask under a new name\<close>










lemma add_mask_label_fields:
  "labels_layer w = Some layer \<Longrightarrow>
   label_names (fst (add_mask_to_labels w combo_text)) = label_names w \<or>
   label_names (fst (add_mask_to_labels w combo_text))
     = label_names (fst (choose_label_id w layer (effective_label_name w combo_text)))"
  by (auto simp: add_mask_to_labels_def Let_def split: prod.splits sum.splits)
























subsection \<open>The 3 by 3 morphology\<close>

text \<open>
  On a two-dimensional mask with as many elements as its shape says, the 3 by 3
  operations return a binary mask of the same shape: they meet what the frame property
  of \<open>_adjust_mask_boundary\<close> asks of the morphological operation.
\<close>

lemma row_major_index: "i < H \<Longrightarrow> j < W \<Longrightarrow> i * W + j < H * (W::nat)"
proof -
  assume i: "i < H" and j: "j < W"
  have "i * W + j < i * W + W" using j by simp
  also have "\<dots> = Suc i * W" by simp
  also have "\<dots> \<le> H * W" using i by (intro mult_le_mono1) simp
  finally show ?thesis .
qed

lemma fold_closed:
  "x \<in> S \<Longrightarrow> set xs \<subseteq> S \<Longrightarrow> (\<And>a b. a \<in> S \<Longrightarrow> b \<in> S \<Longrightarrow> f a b \<in> S) \<Longrightarrow> fold f xs x \<in> S"
  by (induction xs arbitrary: x) auto

lemma neighbours_subset:
  assumes "length xs = H * W"
  shows "set (neighbours H W xs i j) \<subseteq> set xs"
proof
  fix x assume "x \<in> set (neighbours H W xs i j)"
  then obtain i' j' where "i' < H" "j' < W" "x = xs ! (i' * W + j')"
    by (auto simp: neighbours_def)
  with assms row_major_index [of i' H j' W] show "x \<in> set xs" by simp
qed

lemma morph3x3_values:
  assumes "shape a = [H, W]" "length (elems a) = H * W" "set (elems a) \<subseteq> S"
    and "\<And>x y. x \<in> S \<Longrightarrow> y \<in> S \<Longrightarrow> f x y \<in> S"
  shows "set (elems (morph3x3 f a)) \<subseteq> S"
proof
  fix x assume "x \<in> set (elems (morph3x3 f a))"
  then obtain i j where ij: "i < H" "j < W"
    and x: "x = fold f (neighbours H W (elems a) i j) (elems a ! (i * W + j))"
    using assms(1) by (auto simp: morph3x3_def)
  have "elems a ! (i * W + j) \<in> S"
    using assms(2,3) row_major_index [OF ij] by (metis nth_mem subsetD)
  moreover have "set (neighbours H W (elems a) i j) \<subseteq> S"
    using neighbours_subset [OF assms(2)] assms(3) by blast
  ultimately show "x \<in> S" unfolding x using assms(4) by (intro fold_closed) auto
qed

lemma shape_morph3x3: "shape (morph3x3 f a) = shape a"
  by (simp add: morph3x3_def split: list.splits)

lemma cv2_3x3_adjusted:
  assumes "shape m = [H, W]" "length (elems m) = H * W"
  shows "shape (adjusted_mask_of cv2_3x3 m operation_type) = shape m"
    and "set (elems (adjusted_mask_of cv2_3x3 m operation_type)) \<subseteq> {0, 1}"
proof -
  define b where "b = astype (mask_to_binary m default_threshold) np_uint8"
  have sb: "shape b = [H, W]" using assms(1) by (simp add: b_def astype_def shape_mask_to_binary)
  have lb: "length (elems b) = H * W"
    using assms(2) by (simp add: b_def astype_def length_mask_to_binary)
  have vb: "set (elems b) \<subseteq> {0, 1}"
    using values_mask_to_binary [of m default_threshold]
    by (auto simp: b_def astype_def cast_value_binary)
  have adj: "adjusted_mask_of cv2_3x3 m operation_type =
               (if operation_type > 0 then morph3x3 max b else morph3x3 min b)"
    by (simp add: adjusted_mask_of_def cv2_3x3_def b_def Let_def)
  show "shape (adjusted_mask_of cv2_3x3 m operation_type) = shape m"
    using sb assms(1) by (simp add: adj shape_morph3x3)
  have "set (elems (morph3x3 max b)) \<subseteq> {0, 1}"
    using sb lb vb by (rule morph3x3_values) (auto simp: max_def)
  moreover have "set (elems (morph3x3 min b)) \<subseteq> {0, 1}"
    using sb lb vb by (rule morph3x3_values) (auto simp: min_def)
  ultimately show "set (elems (adjusted_mask_of cv2_3x3 m operation_type)) \<subseteq> {0, 1}"
    by (simp add: adj)
qed

end
